theory Spec2Isabelle
  imports Complex_Main
begin

section \<open>Values, errors and tensors\<close>

text \<open>
  The program is \<^verbatim>\<open>lib_layerdiffusion/models.py\<close>. Its tensors are PyTorch tensors. A
  tensor element is a number, an infinity or NaN; arithmetic on numbers is modelled exactly
  (over the reals, without rounding), and a dtype is a tag that a tensor carries.
\<close>

datatype fval = Fin real | PInf | NInf | NaN

fun isnan :: "fval \<Rightarrow> bool" where
  "isnan NaN = True"
| "isnan _ = False"

fun isinf :: "fval \<Rightarrow> bool" where
  "isinf PInf = True"
| "isinf NInf = True"
| "isinf _ = False"

fun in01 :: "fval \<Rightarrow> bool" where
  "in01 (Fin r) = (0 \<le> r \<and> r \<le> 1)"
| "in01 _ = False"

text \<open>
  \<^verbatim>\<open>x.clip(lo, hi)\<close> on one element: \<open>min (max x lo) hi\<close>, where NaN stays NaN and the
  infinities go to the bounds.
\<close>

fun clipv :: "real \<Rightarrow> real \<Rightarrow> fval \<Rightarrow> fval" where
  "clipv lo hi (Fin r) = Fin (min (max r lo) hi)"
| "clipv lo hi PInf = Fin hi"
| "clipv lo hi NInf = Fin (min lo hi)"
| "clipv lo hi NaN = NaN"

fun fadd :: "fval \<Rightarrow> fval \<Rightarrow> fval" where
  "fadd NaN _ = NaN"
| "fadd _ NaN = NaN"
| "fadd (Fin a) (Fin b) = Fin (a + b)"
| "fadd PInf NInf = NaN"
| "fadd NInf PInf = NaN"
| "fadd PInf _ = PInf"
| "fadd _ PInf = PInf"
| "fadd NInf _ = NInf"
| "fadd _ NInf = NInf"

fun fneg :: "fval \<Rightarrow> fval" where
  "fneg (Fin a) = Fin (- a)"
| "fneg PInf = NInf"
| "fneg NInf = PInf"
| "fneg NaN = NaN"

definition fsub :: "fval \<Rightarrow> fval \<Rightarrow> fval" where
  "fsub a b = fadd a (fneg b)"

definition finf :: "bool \<Rightarrow> fval" where
  "finf positive = (if positive then PInf else NInf)"

fun fmul :: "fval \<Rightarrow> fval \<Rightarrow> fval" where
  "fmul NaN _ = NaN"
| "fmul _ NaN = NaN"
| "fmul (Fin a) (Fin b) = Fin (a * b)"
| "fmul (Fin a) PInf = (if a = 0 then NaN else finf (0 < a))"
| "fmul (Fin a) NInf = (if a = 0 then NaN else finf (a < 0))"
| "fmul PInf (Fin b) = (if b = 0 then NaN else finf (0 < b))"
| "fmul NInf (Fin b) = (if b = 0 then NaN else finf (b < 0))"
| "fmul PInf PInf = PInf"
| "fmul NInf NInf = PInf"
| "fmul PInf NInf = NInf"
| "fmul NInf PInf = NInf"

text \<open>Division of an element by a positive count, as \<^verbatim>\<open>torch.mean\<close> does after summing.\<close>

fun fdivn :: "fval \<Rightarrow> nat \<Rightarrow> fval" where
  "fdivn (Fin a) n = Fin (a / real n)"
| "fdivn v n = v"

datatype error =
    AssertionError string
  | ValueError string
  | IndexError string
  | RuntimeError string
  | CvError string

datatype dtype = Float16 | BFloat16 | Float32 | Float64

text \<open>
  A rank-4 tensor: its shape \<open>(d0, d1, d2, d3)\<close>, its elements as nested lists (outermost
  list along dimension 0), its device and its dtype. The element type is a parameter, so that
  the transforms below cover tensors of higher rank as well (an element is then a sub-tensor).
  The shape is kept beside the elements because a dimension of size 0 leaves no trace in the
  nested lists.
\<close>

record 'a tensor =
  d0 :: nat
  d1 :: nat
  d2 :: nat
  d3 :: nat
  elems :: "'a list list list list"
  device :: string
  dtype :: dtype

definition shape :: "'a tensor \<Rightarrow> nat list" where
  "shape t = [d0 t, d1 t, d2 t, d3 t]"

text \<open>The representation invariant: the nested lists have the lengths the shape says.\<close>

definition mat_ok :: "nat \<Rightarrow> nat \<Rightarrow> 'a list list \<Rightarrow> bool" where
  "mat_ok h w m = (length m = h \<and> list_all (\<lambda>r. length r = w) m)"

definition wf :: "'a tensor \<Rightarrow> bool" where
  "wf t = (length (elems t) = d0 t \<and>
     list_all (\<lambda>a. length a = d1 t \<and> list_all (mat_ok (d2 t) (d3 t)) a) (elems t))"

definition map4 :: "('a \<Rightarrow> 'b) \<Rightarrow> 'a list list list list \<Rightarrow> 'b list list list list" where
  "map4 f = map (map (map (map f)))"

definition all4 :: "('a \<Rightarrow> bool) \<Rightarrow> 'a list list list list \<Rightarrow> bool" where
  "all4 P = list_all (list_all (list_all (list_all P)))"

definition ex4 :: "('a \<Rightarrow> bool) \<Rightarrow> 'a list list list list \<Rightarrow> bool" where
  "ex4 P = list_ex (list_ex (list_ex (list_ex P)))"

section \<open>The tensor operations of the decode path\<close>

text \<open>\<^verbatim>\<open>t.clone()\<close>: a copy with the same contents.\<close>

definition clone :: "'a tensor \<Rightarrow> 'a tensor" where
  "clone t = t"

text \<open>\<^verbatim>\<open>t.to(device=dev, dtype=dt)\<close>.\<close>

definition tensor_to :: "string \<Rightarrow> dtype \<Rightarrow> 'a tensor \<Rightarrow> 'a tensor" where
  "tensor_to dev dt t = t\<lparr>device := dev, dtype := dt\<rparr>"

text \<open>\<^verbatim>\<open>torch.flip(t, dims=(3,))\<close>: every innermost row reversed.\<close>

definition torch_flip3 :: "'a tensor \<Rightarrow> 'a tensor" where
  "torch_flip3 t = t\<lparr>elems := map (map (map rev)) (elems t)\<rparr>"

text \<open>
  Transposition of a matrix given as a list of rows, each of length \<open>w\<close>: the result has
  \<open>w\<close> rows.
\<close>

definition transpose_mat :: "nat \<Rightarrow> 'a list list \<Rightarrow> 'a list list" where
  "transpose_mat w m = map (\<lambda>j. map (\<lambda>r. r ! j) m) [0..<w]"

text \<open>
  \<^verbatim>\<open>torch.rot90(t, k, dims=(2, 3))\<close>. PyTorch reduces \<open>k\<close> modulo 4 to \<open>0..3\<close> and then
  returns: for 1, the flip along dimension 3 followed by the transposition of dimensions 2
  and 3; for 2, the flip along both; for 3, the flip along dimension 2 followed by the
  transposition; for 0, a copy.
\<close>

definition rot90_mat :: "nat \<Rightarrow> nat \<Rightarrow> 'a list list \<Rightarrow> 'a list list" where
  "rot90_mat k w m =
     (if k = 1 then transpose_mat w (map rev m)
      else if k = 2 then rev (map rev m)
      else if k = 3 then transpose_mat w (rev m)
      else m)"

definition torch_rot90 :: "int \<Rightarrow> 'a tensor \<Rightarrow> 'a tensor" where
  "torch_rot90 k t =
     (let k4 = nat (k mod 4) in
      t\<lparr>d2 := (if odd k4 then d3 t else d2 t),
        d3 := (if odd k4 then d2 t else d3 t),
        elems := map (map (rot90_mat k4 (d3 t))) (elems t)\<rparr>)"

text \<open>\<^verbatim>\<open>t.clip(lo, hi)\<close> on a tensor.\<close>

definition clip :: "real \<Rightarrow> real \<Rightarrow> fval tensor \<Rightarrow> fval tensor" where
  "clip lo hi t = t\<lparr>elems := map4 (clipv lo hi) (elems t)\<rparr>"

text \<open>
  \<^verbatim>\<open>torch.stack(ts, dim=0)\<close>. The stacked tensor of rank 5 is represented by the list of its
  slices along the new dimension 0. PyTorch refuses an empty list and tensors of different
  shapes.
\<close>

definition torch_stack :: "'a tensor list \<Rightarrow> error + 'a tensor list" where
  "torch_stack ts =
     (case ts of
        [] \<Rightarrow> Inl (RuntimeError ''stack expects a non-empty TensorList'')
      | t # rest \<Rightarrow>
          if list_all (\<lambda>u. shape u = shape t) rest then Inr ts
          else Inl (RuntimeError ''stack expects each tensor to be equal size''))"

text \<open>\<^verbatim>\<open>torch.isnan(st).any()\<close> and \<^verbatim>\<open>torch.isinf(st).any()\<close> on a stacked tensor.\<close>

definition any_isnan :: "fval tensor list \<Rightarrow> bool" where
  "any_isnan st = list_ex (\<lambda>t. ex4 isnan (elems t)) st"

definition any_isinf :: "fval tensor list \<Rightarrow> bool" where
  "any_isinf st = list_ex (\<lambda>t. ex4 isinf (elems t)) st"

text \<open>
  \<^verbatim>\<open>torch.mean(st, dim=0)\<close>: at every index, the sum of the slices' elements divided by the
  number of slices. A stacked tensor has at least one slice (see \<open>torch_stack\<close>).
\<close>

definition mean_vals :: "fval list \<Rightarrow> fval" where
  "mean_vals vs = fdivn (foldl fadd (Fin 0) vs) (length vs)"

fun torch_mean0 :: "fval tensor list \<Rightarrow> fval tensor" where
  "torch_mean0 (t # rest) =
     t\<lparr>elems :=
         map (\<lambda>b. map (\<lambda>c. map (\<lambda>h. map (\<lambda>w.
               mean_vals (map (\<lambda>u. elems u ! b ! c ! h ! w) (t # rest)))
             [0..<d3 t]) [0..<d2 t]) [0..<d1 t]) [0..<d0 t]\<rparr>"

section \<open>TransparentVAEDecoder\<close>

text \<open>
  The decoder object: its device, its dtype and its network. The network is
  \<^verbatim>\<open>UNet1024\<close> with loaded weights; a call of it returns a tensor or fails.
  \<^verbatim>\<open>DEBUG_ENABLED\<close> is \<open>False\<close>, so the debug logging is absent from the model.
\<close>

record decoder =
  load_device :: string
  self_dtype :: dtype
  model :: "fval tensor \<Rightarrow> fval tensor \<Rightarrow> error + fval tensor"

text \<open>
  The effects of a decode call, in the order they happen: a transfer of a tensor to a device
  and dtype, a forward pass of the network on a pair of tensors, a line of the error log.
\<close>

datatype event =
    ToDevice string dtype
  | Forward "fval tensor" "fval tensor"
  | LogError string

type_synonym 'a run = "event list \<times> (error + 'a)"

definition estimate_single_pass ::
  "decoder \<Rightarrow> fval tensor \<Rightarrow> fval tensor \<Rightarrow> fval tensor run" where
  "estimate_single_pass self pixel latent = ([Forward pixel latent], model self pixel latent)"

definition args :: "(bool \<times> int) list" where
  "args = [(False, 0), (False, 1), (False, 2), (False, 3),
           (True, 0), (True, 1), (True, 2), (True, 3)]"

text \<open>The \<^verbatim>\<open>for flip, rok in args\<close> loop of \<^verbatim>\<open>estimate_augmented\<close>, appending to \<open>result\<close>.\<close>

fun augment_loop ::
  "decoder \<Rightarrow> fval tensor \<Rightarrow> fval tensor \<Rightarrow> (bool \<times> int) list \<Rightarrow> fval tensor list
     \<Rightarrow> fval tensor list run" where
  "augment_loop self pixel latent [] result = ([], Inr result)"
| "augment_loop self pixel latent ((flip, rok) # rest) result =
     (let feed_pixel = clone pixel;
          feed_latent = clone latent;
          feed_pixel = (if flip then torch_flip3 feed_pixel else feed_pixel);
          feed_latent = (if flip then torch_flip3 feed_latent else feed_latent);
          feed_pixel = torch_rot90 rok feed_pixel;
          feed_latent = torch_rot90 rok feed_latent;
          (evs, r) = estimate_single_pass self feed_pixel feed_latent
      in case r of
           Inl e \<Rightarrow> (evs, Inl e)
         | Inr out \<Rightarrow>
             (let eps = clip 0 1 out;
                  eps = torch_rot90 (- rok) eps;
                  eps = (if flip then torch_flip3 eps else eps);
                  (evs', r') = augment_loop self pixel latent rest (result @ [eps])
              in (evs @ evs', r')))"

text \<open>
  What one turn of the loop does for the descriptor \<open>(flip, rok)\<close>: \<open>augment\<close> is the
  transform applied to the pixel and to the latent before the forward pass, \<open>restore\<close> is
  what is done to the output of the network before it is appended to \<open>result\<close>. The lemma
  \<open>augment_loop_success\<close> below shows that the loop is made of these two.
\<close>

definition augment :: "bool \<times> int \<Rightarrow> 'a tensor \<Rightarrow> 'a tensor" where
  "augment a t =
     (case a of (flip, rok) \<Rightarrow>
        torch_rot90 rok (if flip then torch_flip3 (clone t) else clone t))"

definition restore :: "bool \<times> int \<Rightarrow> fval tensor \<Rightarrow> fval tensor" where
  "restore a out =
     (case a of (flip, rok) \<Rightarrow>
        (let eps = torch_rot90 (- rok) (clip 0 1 out)
         in if flip then torch_flip3 eps else eps))"

definition estimate_augmented ::
  "decoder \<Rightarrow> fval tensor \<Rightarrow> fval tensor \<Rightarrow> fval tensor run" where
  "estimate_augmented self pixel latent =
     (let (evs, r) = augment_loop self pixel latent args [] in
      case r of
        Inl e \<Rightarrow> (evs, Inl e)
      | Inr result \<Rightarrow>
          (case torch_stack result of
             Inl e \<Rightarrow> (evs, Inl e)
           | Inr result \<Rightarrow>
               if any_isnan result \<or> any_isinf result
               then (evs @ [LogError ''estimate_augmented: stacked tensor contains NaN or inf values''],
                     Inl (ValueError ''Stacked tensor contains NaN or inf values''))
               else (evs, Inr (torch_mean0 result))))"

definition decode_pixel ::
  "decoder \<Rightarrow> fval tensor \<Rightarrow> fval tensor \<Rightarrow> fval tensor run" where
  "decode_pixel self pixel latent =
     (if shape pixel ! 1 \<noteq> 3 then ([], Inl (AssertionError ''Expected pixel.shape[1] == 3''))
      else
        let pixel_device = device pixel;
            pixel_dtype = dtype pixel;
            pixel = tensor_to (load_device self) (self_dtype self) pixel;
            latent = tensor_to (load_device self) (self_dtype self) latent;
            moved = [ToDevice (load_device self) (self_dtype self),
                     ToDevice (load_device self) (self_dtype self)];
            (evs, r) = estimate_augmented self pixel latent
        in case r of
             Inl e \<Rightarrow> (moved @ evs, Inl e)
           | Inr y \<Rightarrow>
               if length (shape y) < 2
               then (moved @ evs @ [LogError ''decode_pixel: y has insufficient dimensions''],
                     Inl (ValueError ''Expected y to have at least 2 dimensions''))
               else
                 let y = clip 0 1 y in
                 if shape y ! 1 \<noteq> 4
                 then (moved @ evs, Inl (AssertionError ''Expected y.shape[1] == 4''))
                 else (moved @ evs @ [ToDevice pixel_device pixel_dtype],
                       Inr (tensor_to pixel_device pixel_dtype y)))"

section \<open>The checkerboard compositor\<close>

text \<open>
  \<^verbatim>\<open>np.indices(shape).sum(axis=0) % 2\<close> for a shape \<open>(h, w)\<close>: the entry at \<open>(i, j)\<close> is
  \<open>(i + j) mod 2\<close>.
\<close>

definition checkerboard :: "nat \<times> nat \<Rightarrow> nat list list" where
  "checkerboard shp = (case shp of (h, w) \<Rightarrow> map (\<lambda>i. map (\<lambda>j. (i + j) mod 2) [0..<w]) [0..<h])"

text \<open>
  \<^verbatim>\<open>cv2.resize(src, (W, H), interpolation=cv2.INTER_NEAREST)\<close> on a source of \<open>sh\<close> rows
  and \<open>sw\<close> columns. OpenCV refuses an empty source and an empty destination size; the
  destination pixel \<open>(y, x)\<close> is the source pixel \<open>(min (y * sh div H) (sh - 1),
  min (x * sw div W) (sw - 1))\<close>.
\<close>

definition cv2_resize_nearest ::
  "nat \<Rightarrow> nat \<Rightarrow> 'a list list \<Rightarrow> nat \<times> nat \<Rightarrow> error + 'a list list" where
  "cv2_resize_nearest sh sw src dsize =
     (case dsize of (W, H) \<Rightarrow>
        if sh = 0 \<or> sw = 0 then Inl (CvError ''(-215:Assertion failed) !ssize.empty()'')
        else if W = 0 \<or> H = 0 then Inl (CvError ''(-215:Assertion failed) !dsize.empty()'')
        else Inr (map (\<lambda>y. map (\<lambda>x. src ! min (y * sh div H) (sh - 1) ! min (x * sw div W) (sw - 1))
                              [0..<W]) [0..<H]))"

text \<open>
  \<^verbatim>\<open>fill_checkerboard_bg\<close>, on a tensor in the layout (batch, height, width, channel).
  \<open>alpha\<close> is \<^verbatim>\<open>y[..., :1]\<close> and \<open>fg\<close> is \<^verbatim>\<open>y[..., 1:]\<close>; the last line is the elementwise
  \<^verbatim>\<open>fg * alpha + cb * (1 - alpha)\<close>, where \<open>alpha\<close> is broadcast along the channels and
  \<open>cb\<close>, of shape \<open>(1, H, W, 1)\<close>, along the batch and the channels.
\<close>

definition fill_checkerboard_bg :: "fval tensor \<Rightarrow> error + fval tensor" where
  "fill_checkerboard_bg y =
     (let alpha = y\<lparr>d3 := min 1 (d3 y), elems := map (map (map (take 1))) (elems y)\<rparr>;
          fg = y\<lparr>d3 := d3 y - 1, elems := map (map (map (drop 1))) (elems y)\<rparr>;
          B = d0 fg; H = d1 fg; W = d2 fg; C = d3 fg;
          cb = checkerboard (H div 64, W div 64)
      in case cv2_resize_nearest (H div 64) (W div 64) cb (W, H) of
           Inl e \<Rightarrow> Inl e
         | Inr cb \<Rightarrow>
             (let cb = map (map (\<lambda>v. 0.5 + (real v - 0.5) * 0.1)) cb;
                  vis = fg\<lparr>elems :=
                    map (\<lambda>b. map (\<lambda>h. map (\<lambda>w. map (\<lambda>c.
                          fadd (fmul (elems fg ! b ! h ! w ! c) (elems alpha ! b ! h ! w ! 0))
                               (fmul (Fin (cb ! h ! w))
                                     (fsub (Fin 1) (elems alpha ! b ! h ! w ! 0))))
                        [0..<C]) [0..<W]) [0..<H]) [0..<B]\<rparr>
              in Inr vis))"

section \<open>Convolution modules and the offset encoder\<close>

text \<open>
  A \<^verbatim>\<open>torch.nn.Conv2d\<close> module: its configuration and its parameters. The constructor
  fills the parameters from an initialiser \<open>init\<close>, which gives the initial value of the
  parameter at each position; \<open>zero_module\<close> overwrites every parameter with zero.
\<close>

record conv2d =
  in_channels :: nat
  out_channels :: nat
  kernel_size :: nat
  padding :: nat
  stride :: nat
  weight :: "real list"
  bias :: "real list"

definition nn_Conv2d :: "(nat \<Rightarrow> real) \<Rightarrow> nat \<Rightarrow> nat \<Rightarrow> nat \<Rightarrow> nat \<Rightarrow> nat \<Rightarrow> conv2d" where
  "nn_Conv2d init cin cout k p s =
     \<lparr>in_channels = cin, out_channels = cout, kernel_size = k, padding = p, stride = s,
      weight = map init [0..<cout * cin * k * k], bias = map init [0..<cout]\<rparr>"

definition parameters :: "conv2d \<Rightarrow> real list" where
  "parameters m = weight m @ bias m"

definition zero_module :: "conv2d \<Rightarrow> conv2d" where
  "zero_module m = m\<lparr>weight := map (\<lambda>p. 0) (weight m), bias := map (\<lambda>p. 0) (bias m)\<rparr>"

datatype layer = Conv conv2d | SiLU

text \<open>The \<^verbatim>\<open>torch.nn.Sequential\<close> of \<^verbatim>\<open>LatentTransparencyOffsetEncoder.__init__\<close>.\<close>

definition offset_encoder_blocks :: "(nat \<Rightarrow> real) \<Rightarrow> layer list" where
  "offset_encoder_blocks init =
     [Conv (nn_Conv2d init 4 32 3 1 1),
      SiLU,
      Conv (nn_Conv2d init 32 32 3 1 1),
      SiLU,
      Conv (nn_Conv2d init 32 64 3 1 2),
      SiLU,
      Conv (nn_Conv2d init 64 64 3 1 1),
      SiLU,
      Conv (nn_Conv2d init 64 128 3 1 2),
      SiLU,
      Conv (nn_Conv2d init 128 128 3 1 1),
      SiLU,
      Conv (nn_Conv2d init 128 256 3 1 2),
      SiLU,
      Conv (nn_Conv2d init 256 256 3 1 1),
      SiLU,
      Conv (zero_module (nn_Conv2d init 256 4 3 1 1))]"

text \<open>
  The shape of a module's output, from the shape of its input. A convolution takes a batched
  input \<open>(N, C, H, W)\<close> or an unbatched one \<open>(C, H, W)\<close>, refuses a wrong channel count and a
  padded input smaller than the kernel, and gives each spatial size \<open>s\<close> the size
  \<open>(s + 2 * padding - kernel_size) div stride + 1\<close>. \<^verbatim>\<open>SiLU\<close> keeps the shape.
\<close>

definition conv_out_size :: "conv2d \<Rightarrow> nat \<Rightarrow> nat" where
  "conv_out_size c s = (s + 2 * padding c - kernel_size c) div stride c + 1"

definition conv2d_check :: "conv2d \<Rightarrow> nat \<Rightarrow> nat \<Rightarrow> nat \<Rightarrow> error + unit" where
  "conv2d_check c ch h w =
     (if ch \<noteq> in_channels c
      then Inl (RuntimeError ''expected input to have in_channels channels'')
      else if h + 2 * padding c < kernel_size c \<or> w + 2 * padding c < kernel_size c
      then Inl (RuntimeError ''Kernel size cannot be greater than actual input size'')
      else Inr ())"

fun conv2d_shape :: "conv2d \<Rightarrow> nat list \<Rightarrow> error + nat list" where
  "conv2d_shape c [n, ch, h, w] =
     (case conv2d_check c ch h w of
        Inl e \<Rightarrow> Inl e
      | Inr _ \<Rightarrow> Inr [n, out_channels c, conv_out_size c h, conv_out_size c w])"
| "conv2d_shape c [ch, h, w] =
     (case conv2d_check c ch h w of
        Inl e \<Rightarrow> Inl e
      | Inr _ \<Rightarrow> Inr [out_channels c, conv_out_size c h, conv_out_size c w])"
| "conv2d_shape c shp =
     Inl (RuntimeError ''Expected 3D (unbatched) or 4D (batched) input to conv2d'')"

fun layer_shape :: "layer \<Rightarrow> nat list \<Rightarrow> error + nat list" where
  "layer_shape (Conv c) shp = conv2d_shape c shp"
| "layer_shape SiLU shp = Inr shp"

fun sequential_shape :: "layer list \<Rightarrow> nat list \<Rightarrow> error + nat list" where
  "sequential_shape [] shp = Inr shp"
| "sequential_shape (l # ls) shp =
     (case layer_shape l shp of Inl e \<Rightarrow> Inl e | Inr shp' \<Rightarrow> sequential_shape ls shp')"

text \<open>
  \<^verbatim>\<open>LatentTransparencyOffsetEncoder.__call__\<close>, which returns \<^verbatim>\<open>self.blocks(x)\<close>, on the shape
  of \<open>x\<close>.
\<close>

definition offset_encoder_call_shape :: "(nat \<Rightarrow> real) \<Rightarrow> nat list \<Rightarrow> error + nat list" where
  "offset_encoder_call_shape init shp = sequential_shape (offset_encoder_blocks init) shp"

fun conv_of :: "layer \<Rightarrow> conv2d list" where
  "conv_of (Conv c) = [c]"
| "conv_of SiLU = []"

definition convs :: "layer list \<Rightarrow> conv2d list" where
  "convs ls = concat (map conv_of ls)"

section \<open>UNet1024\<close>

text \<open>
  The arguments that \<^verbatim>\<open>UNet1024.__init__\<close> passes to \<^verbatim>\<open>get_down_block\<close> and
  \<^verbatim>\<open>get_up_block\<close> for one stage.
\<close>

record down_cfg =
  d_block_type :: string
  num_layers :: nat
  d_in_channels :: nat
  d_out_channels :: nat
  add_downsample :: bool

record up_cfg =
  u_block_type :: string
  u_num_layers :: nat
  u_in_channels :: nat
  u_out_channels :: nat
  u_prev_output_channel :: nat
  add_upsample :: bool

record unet_cfg =
  conv_in_cfg :: conv2d
  latent_conv_in_cfg :: conv2d
  down_cfgs :: "down_cfg list"
  mid_channels :: nat
  up_cfgs :: "up_cfg list"
  conv_out_cfg :: conv2d

text \<open>Indexing a tuple at a position that may be out of range.\<close>

definition py_index :: "'a list \<Rightarrow> nat \<Rightarrow> error + 'a" where
  "py_index xs i = (if i < length xs then Inr (xs ! i) else Inl (IndexError ''tuple index out of range''))"

text \<open>The loop \<^verbatim>\<open>for i, down_block_type in enumerate(down_block_types)\<close>.\<close>

fun down_init :: "nat list \<Rightarrow> nat \<Rightarrow> nat \<Rightarrow> nat \<Rightarrow> string list \<Rightarrow> error + down_cfg list" where
  "down_init block_out_channels layers_per_block i output_channel [] = Inr []"
| "down_init block_out_channels layers_per_block i output_channel (down_block_type # rest) =
     (let input_channel = output_channel in
      case py_index block_out_channels i of
        Inl e \<Rightarrow> Inl e
      | Inr output_channel \<Rightarrow>
          (let is_final_block = (Suc i = length block_out_channels);
               down_block = \<lparr>d_block_type = down_block_type,
                             num_layers = layers_per_block,
                             d_in_channels = input_channel,
                             d_out_channels = output_channel,
                             add_downsample = (\<not> is_final_block)\<rparr>
           in case down_init block_out_channels layers_per_block (Suc i) output_channel rest of
                Inl e \<Rightarrow> Inl e
              | Inr blocks \<Rightarrow> Inr (down_block # blocks)))"

text \<open>The loop \<^verbatim>\<open>for i, up_block_type in enumerate(up_block_types)\<close>.\<close>

fun up_init :: "nat list \<Rightarrow> nat \<Rightarrow> nat \<Rightarrow> nat \<Rightarrow> string list \<Rightarrow> error + up_cfg list" where
  "up_init reversed_block_out_channels layers_per_block i output_channel [] = Inr []"
| "up_init reversed_block_out_channels layers_per_block i output_channel (up_block_type # rest) =
     (let prev_output_channel = output_channel in
      case py_index reversed_block_out_channels i of
        Inl e \<Rightarrow> Inl e
      | Inr output_channel \<Rightarrow>
          (case py_index reversed_block_out_channels
                  (min (i + 1) (length reversed_block_out_channels - 1)) of
             Inl e \<Rightarrow> Inl e
           | Inr input_channel \<Rightarrow>
               (let is_final_block = (Suc i = length reversed_block_out_channels);
                    up_block = \<lparr>u_block_type = up_block_type,
                                u_num_layers = layers_per_block + 1,
                                u_in_channels = input_channel,
                                u_out_channels = output_channel,
                                u_prev_output_channel = prev_output_channel,
                                add_upsample = (\<not> is_final_block)\<rparr>
                in case up_init reversed_block_out_channels layers_per_block (Suc i)
                          output_channel rest of
                     Inl e \<Rightarrow> Inl e
                   | Inr blocks \<Rightarrow> Inr (up_block # blocks))))"

definition UNet1024_init ::
  "(nat \<Rightarrow> real) \<Rightarrow> nat \<Rightarrow> nat \<Rightarrow> string list \<Rightarrow> string list \<Rightarrow> nat list \<Rightarrow> nat
     \<Rightarrow> error + unet_cfg" where
  "UNet1024_init init in_chans out_chans down_block_types up_block_types block_out_channels
       layers_per_block =
     (case py_index block_out_channels 0 of
        Inl e \<Rightarrow> Inl e
      | Inr c0 \<Rightarrow>
     (case py_index block_out_channels 2 of
        Inl e \<Rightarrow> Inl e
      | Inr c2 \<Rightarrow>
     (case down_init block_out_channels layers_per_block 0 c0 down_block_types of
        Inl e \<Rightarrow> Inl e
      | Inr downs \<Rightarrow>
     (case py_index (rev block_out_channels) 0 of
        Inl e \<Rightarrow> Inl e
      | Inr c_last \<Rightarrow>
     (case up_init (rev block_out_channels) layers_per_block 0 c_last up_block_types of
        Inl e \<Rightarrow> Inl e
      | Inr ups \<Rightarrow>
          Inr \<lparr>conv_in_cfg = nn_Conv2d init in_chans c0 3 1 1,
               latent_conv_in_cfg = zero_module (nn_Conv2d init 4 c2 1 0 1),
               down_cfgs = downs,
               mid_channels = c_last,
               up_cfgs = ups,
               conv_out_cfg = nn_Conv2d init c0 out_chans 3 1 1\<rparr>)))))"

text \<open>
  The network that \<^verbatim>\<open>TransparentVAEDecoder.__init__\<close> builds:
  \<^verbatim>\<open>UNet1024(in_channels=3, out_channels=4)\<close>, every other argument at its default.
\<close>

definition default_down_block_types :: "string list" where
  "default_down_block_types =
     [''DownBlock2D'', ''DownBlock2D'', ''DownBlock2D'', ''DownBlock2D'',
      ''AttnDownBlock2D'', ''AttnDownBlock2D'', ''AttnDownBlock2D'']"

definition default_up_block_types :: "string list" where
  "default_up_block_types =
     [''AttnUpBlock2D'', ''AttnUpBlock2D'', ''AttnUpBlock2D'',
      ''UpBlock2D'', ''UpBlock2D'', ''UpBlock2D'', ''UpBlock2D'']"

definition default_block_out_channels :: "nat list" where
  "default_block_out_channels = [32, 32, 64, 128, 256, 512, 512]"

definition decoder_unet_cfg :: "(nat \<Rightarrow> real) \<Rightarrow> error + unet_cfg" where
  "decoder_unet_cfg init =
     UNet1024_init init 3 4 default_down_block_types default_up_block_types
       default_block_out_channels 2"

text \<open>
  The modules of a built network, as functions on tensors of any type \<open>'a\<close>. A down block
  returns its output and the tuple of residual samples it produced; an up block takes the
  running sample and the residual samples handed to it. The blocks are those of the
  \<^verbatim>\<open>diffusers\<close> library: an up block has as many \<^verbatim>\<open>resnets\<close> as its \<open>num_layers\<close>.
\<close>

record 'a down_block =
  dcfg :: down_cfg
  dfwd :: "'a \<Rightarrow> 'a \<times> 'a list"

record 'a up_block =
  ucfg :: up_cfg
  ufwd :: "'a \<Rightarrow> 'a list \<Rightarrow> 'a"

definition resnets_len :: "'a up_block \<Rightarrow> nat" where
  "resnets_len b = u_num_layers (ucfg b)"

record 'a unet =
  conv_in :: "'a \<Rightarrow> 'a"
  latent_conv_in :: "'a \<Rightarrow> 'a"
  down_blocks :: "'a down_block list"
  mid_block :: "'a \<Rightarrow> 'a"
  up_blocks :: "'a up_block list"
  conv_norm_out :: "'a \<Rightarrow> 'a"
  conv_act :: "'a \<Rightarrow> 'a"
  conv_out :: "'a \<Rightarrow> 'a"


text \<open>The slices \<^verbatim>\<open>xs[-n:]\<close> and \<^verbatim>\<open>xs[:-n]\<close> of a tuple, for \<open>n \<ge> 0\<close>.\<close>

definition py_last :: "nat \<Rightarrow> 'a list \<Rightarrow> 'a list" where
  "py_last n xs = (if n = 0 then xs else drop (length xs - n) xs)"

definition py_butlast :: "nat \<Rightarrow> 'a list \<Rightarrow> 'a list" where
  "py_butlast n xs = (if n = 0 then [] else take (length xs - n) xs)"

text \<open>The loop over \<^verbatim>\<open>self.down_blocks\<close> of \<^verbatim>\<open>UNet1024.forward\<close>.\<close>

fun down_loop ::
  "nat \<Rightarrow> ('a::plus) down_block list \<Rightarrow> 'a \<Rightarrow> 'a \<Rightarrow> 'a list \<Rightarrow> 'a \<times> 'a list" where
  "down_loop i [] sample sample_latent down_block_res_samples =
     (sample, down_block_res_samples)"
| "down_loop i (downsample_block # rest) sample sample_latent down_block_res_samples =
     (let sample = (if i = 3 then sample + sample_latent else sample);
          (sample, res_samples) = dfwd downsample_block sample
      in down_loop (Suc i) rest sample sample_latent (down_block_res_samples @ res_samples))"

text \<open>The loop over \<^verbatim>\<open>self.up_blocks\<close>; it returns the sample and what is left of the tuple.\<close>

fun up_loop :: "'a up_block list \<Rightarrow> 'a \<Rightarrow> 'a list \<Rightarrow> 'a \<times> 'a list" where
  "up_loop [] sample down_block_res_samples = (sample, down_block_res_samples)"
| "up_loop (upsample_block # rest) sample down_block_res_samples =
     (let res_samples = py_last (resnets_len upsample_block) down_block_res_samples;
          down_block_res_samples = py_butlast (resnets_len upsample_block) down_block_res_samples;
          sample = ufwd upsample_block sample res_samples
      in up_loop rest sample down_block_res_samples)"


text \<open>\<^verbatim>\<open>UNet1024.forward\<close> up to the end of the down loop, and the whole of it.\<close>

definition down_pass :: "('a::plus) unet \<Rightarrow> 'a \<Rightarrow> 'a \<Rightarrow> 'a \<times> 'a list" where
  "down_pass net x latent =
     (let sample_latent = latent_conv_in net latent;
          sample = conv_in net x;
          down_block_res_samples = [sample]
      in down_loop 0 (down_blocks net) sample sample_latent down_block_res_samples)"

definition forward :: "('a::plus) unet \<Rightarrow> 'a \<Rightarrow> 'a \<Rightarrow> 'a" where
  "forward net x latent =
     (let (sample, down_block_res_samples) = down_pass net x latent;
          sample = mid_block net sample;
          (sample, down_block_res_samples) = up_loop (up_blocks net) sample down_block_res_samples;
          sample = conv_norm_out net sample;
          sample = conv_act net sample;
          sample = conv_out net sample
      in sample)"

text \<open>
  The injection point in the words of the specification's parenthesis, "after down-stage
  index \<open>k\<close>, zero-indexed": the down loop that adds the projected latent to the output of
  the block of index \<open>k\<close>. It is compared with \<open>down_loop\<close> below.
\<close>

fun down_loop_inject_after ::
  "nat \<Rightarrow> nat \<Rightarrow> ('a::plus) down_block list \<Rightarrow> 'a \<Rightarrow> 'a \<Rightarrow> 'a list \<Rightarrow> 'a \<times> 'a list" where
  "down_loop_inject_after k i [] sample sample_latent down_block_res_samples =
     (sample, down_block_res_samples)"
| "down_loop_inject_after k i (downsample_block # rest) sample sample_latent
       down_block_res_samples =
     (let (sample, res_samples) = dfwd downsample_block sample;
          sample = (if i = k then sample + sample_latent else sample)
      in down_loop_inject_after k (Suc i) rest sample sample_latent
           (down_block_res_samples @ res_samples))"

section \<open>Concrete inputs\<close>

text \<open>A tensor of shape \<open>(1, 1, 2, 3)\<close> with six different entries.\<close>

definition grid23 :: "nat tensor" where
  "grid23 = \<lparr>d0 = 1, d1 = 1, d2 = 2, d3 = 3, elems = [[[[1, 2, 3], [4, 5, 6]]]],
             device = ''cpu'', dtype = Float32\<rparr>"

text \<open>A single RGBA pixel in the layout (batch, height, width, channel), fully opaque.\<close>

definition rgba_pixel :: "fval tensor" where
  "rgba_pixel = \<lparr>d0 = 1, d1 = 1, d2 = 1, d3 = 4, elems = [[[[Fin 1, Fin 0.2, Fin 0.4, Fin 0.6]]]],
                 device = ''cpu'', dtype = Float32\<rparr>"

text \<open>A decoder on another device and dtype whose network returns its pixel input.\<close>

definition echo_decoder :: decoder where
  "echo_decoder = \<lparr>load_device = ''cuda'', self_dtype = Float16, model = (\<lambda>pixel latent. Inr pixel)\<rparr>"

text \<open>Which modules of a sequential stack are convolutions.\<close>

fun is_conv :: "layer \<Rightarrow> bool" where
  "is_conv (Conv c) = True"
| "is_conv SiLU = False"

text \<open>The initialiser that gives every parameter the value zero.\<close>

definition zero_init :: "nat \<Rightarrow> real" where
  "zero_init i = 0"

text \<open>The configuration of the decoder's network, written out.\<close>

definition built_cfg :: "(nat \<Rightarrow> real) \<Rightarrow> unet_cfg" where
  "built_cfg init =
     \<lparr>conv_in_cfg = nn_Conv2d init 3 32 3 1 1,
      latent_conv_in_cfg = zero_module (nn_Conv2d init 4 64 1 0 1),
      down_cfgs =
        [\<lparr>d_block_type = ''DownBlock2D'', num_layers = 2, d_in_channels = 32,
          d_out_channels = 32, add_downsample = True\<rparr>,
         \<lparr>d_block_type = ''DownBlock2D'', num_layers = 2, d_in_channels = 32,
          d_out_channels = 32, add_downsample = True\<rparr>,
         \<lparr>d_block_type = ''DownBlock2D'', num_layers = 2, d_in_channels = 32,
          d_out_channels = 64, add_downsample = True\<rparr>,
         \<lparr>d_block_type = ''DownBlock2D'', num_layers = 2, d_in_channels = 64,
          d_out_channels = 128, add_downsample = True\<rparr>,
         \<lparr>d_block_type = ''AttnDownBlock2D'', num_layers = 2, d_in_channels = 128,
          d_out_channels = 256, add_downsample = True\<rparr>,
         \<lparr>d_block_type = ''AttnDownBlock2D'', num_layers = 2, d_in_channels = 256,
          d_out_channels = 512, add_downsample = True\<rparr>,
         \<lparr>d_block_type = ''AttnDownBlock2D'', num_layers = 2, d_in_channels = 512,
          d_out_channels = 512, add_downsample = False\<rparr>],
      mid_channels = 512,
      up_cfgs =
        [\<lparr>u_block_type = ''AttnUpBlock2D'', u_num_layers = 3, u_in_channels = 512,
          u_out_channels = 512, u_prev_output_channel = 512, add_upsample = True\<rparr>,
         \<lparr>u_block_type = ''AttnUpBlock2D'', u_num_layers = 3, u_in_channels = 256,
          u_out_channels = 512, u_prev_output_channel = 512, add_upsample = True\<rparr>,
         \<lparr>u_block_type = ''AttnUpBlock2D'', u_num_layers = 3, u_in_channels = 128,
          u_out_channels = 256, u_prev_output_channel = 512, add_upsample = True\<rparr>,
         \<lparr>u_block_type = ''UpBlock2D'', u_num_layers = 3, u_in_channels = 64,
          u_out_channels = 128, u_prev_output_channel = 256, add_upsample = True\<rparr>,
         \<lparr>u_block_type = ''UpBlock2D'', u_num_layers = 3, u_in_channels = 32,
          u_out_channels = 64, u_prev_output_channel = 128, add_upsample = True\<rparr>,
         \<lparr>u_block_type = ''UpBlock2D'', u_num_layers = 3, u_in_channels = 32,
          u_out_channels = 32, u_prev_output_channel = 64, add_upsample = True\<rparr>,
         \<lparr>u_block_type = ''UpBlock2D'', u_num_layers = 3, u_in_channels = 32,
          u_out_channels = 32, u_prev_output_channel = 32, add_upsample = False\<rparr>],
      conv_out_cfg = nn_Conv2d init 32 4 3 1 1\<rparr>"

text \<open>
  A network on integers with the blocks of a configuration: a down block doubles its input
  and returns as many residual samples as the library's block does, an up block adds the
  residual samples it is handed to the running sample, every other module is the identity.
\<close>

definition counting_down_block :: "down_cfg \<Rightarrow> int down_block" where
  "counting_down_block c =
     \<lparr>dcfg = c,
      dfwd = (\<lambda>x. (2 * x, replicate (num_layers c + (if add_downsample c then 1 else 0)) x))\<rparr>"

definition counting_up_block :: "up_cfg \<Rightarrow> int up_block" where
  "counting_up_block c = \<lparr>ucfg = c, ufwd = (\<lambda>sample res_samples. sample + sum_list res_samples)\<rparr>"

definition counting_net :: "unet_cfg \<Rightarrow> int unet" where
  "counting_net cfg =
     \<lparr>conv_in = (\<lambda>x. x),
      latent_conv_in = (\<lambda>x. x),
      down_blocks = map counting_down_block (down_cfgs cfg),
      mid_block = (\<lambda>x. x),
      up_blocks = map counting_up_block (up_cfgs cfg),
      conv_norm_out = (\<lambda>x. x),
      conv_act = (\<lambda>x. x),
      conv_out = (\<lambda>x. x)\<rparr>"


text \<open>An RGB image of one row and two columns, and a latent for it.\<close>

definition pixel12 :: "fval tensor" where
  "pixel12 = \<lparr>d0 = 1, d1 = 3, d2 = 1, d3 = 2,
               elems = [[[[Fin 0.1, Fin 0.2]], [[Fin 0.3, Fin 0.4]], [[Fin 0.5, Fin 0.6]]]],
               device = ''cpu'', dtype = Float32\<rparr>"

definition latent11 :: "fval tensor" where
  "latent11 = \<lparr>d0 = 1, d1 = 4, d2 = 1, d3 = 1,
                elems = [[[[Fin 0]], [[Fin 0]], [[Fin 0]], [[Fin 0]]]],
                device = ''cpu'', dtype = Float32\<rparr>"

text \<open>
  A decoder whose network returns, for a pixel tensor of shape \<open>(B, C, H, W)\<close>, the tensor of
  shape \<open>(B, 4, H, W)\<close> filled with one value.
\<close>

definition const_output :: "fval \<Rightarrow> fval tensor \<Rightarrow> fval tensor" where
  "const_output v pixel =
     \<lparr>d0 = d0 pixel, d1 = 4, d2 = d2 pixel, d3 = d3 pixel,
      elems = replicate (d0 pixel) (replicate 4 (replicate (d2 pixel) (replicate (d3 pixel) v))),
      device = device pixel, dtype = dtype pixel\<rparr>"

definition const_decoder :: "fval \<Rightarrow> decoder" where
  "const_decoder v =
     \<lparr>load_device = ''cuda'', self_dtype = Float16,
      model = (\<lambda>pixel latent. Inr (const_output v pixel))\<rparr>"

text \<open>Predicates on the elements of a matrix and on elements that are numbers.\<close>

definition matP :: "('a \<Rightarrow> bool) \<Rightarrow> 'a list list \<Rightarrow> bool" where
  "matP P m = (\<forall>r \<in> set m. \<forall>v \<in> set r. P v)"

definition is_fin :: "fval \<Rightarrow> bool" where
  "is_fin v = (\<not> isnan v \<and> \<not> isinf v)"




section \<open>Round trip of the augmentation transform\<close>

lemma mat_ok_nth: "mat_ok h w m \<Longrightarrow> i < h \<Longrightarrow> length (m ! i) = w"
  by (simp add: mat_ok_def list_all_length)

lemma mat_ok_transpose: "mat_ok w (length m) (transpose_mat w m)"
  by (simp add: mat_ok_def transpose_mat_def list_all_iff)

lemma nth_transpose_mat:
  "j < w \<Longrightarrow> i < length m \<Longrightarrow> transpose_mat w m ! j ! i = m ! i ! j"
  by (simp add: transpose_mat_def)

lemma mat_eqI:
  assumes "mat_ok h w a" and "mat_ok h w b"
    and "\<And>i j. i < h \<Longrightarrow> j < w \<Longrightarrow> a ! i ! j = b ! i ! j"
  shows "a = b"
proof (rule nth_equalityI)
  show "length a = length b" using assms(1,2) by (simp add: mat_ok_def)
next
  fix i assume i: "i < length a"
  then have ih: "i < h" using assms(1) by (simp add: mat_ok_def)
  have la: "length (a ! i) = w" using mat_ok_nth [OF assms(1) ih] .
  have lb: "length (b ! i) = w" using mat_ok_nth [OF assms(2) ih] .
  show "a ! i = b ! i"
    by (rule nth_equalityI) (use la lb assms(3) ih in auto)
qed

lemma mat_ok_rot90:
  assumes "mat_ok h w m" and "k < 4"
  shows "mat_ok (if odd k then w else h) (if odd k then h else w) (rot90_mat k w m)"
proof -
  have len: "length m = h" using assms by (simp add: mat_ok_def)
  have t1: "mat_ok w h (transpose_mat w (map rev m))"
    using mat_ok_transpose [of w "map rev m"] len by simp
  have t3: "mat_ok w h (transpose_mat w (rev m))"
    using mat_ok_transpose [of w "rev m"] len by simp
  have t2: "mat_ok h w (rev (map rev m))"
    using assms by (simp add: mat_ok_def list_all_iff)
  from assms(2) consider "k = 0" | "k = 1" | "k = 2" | "k = 3" by linarith
  then show ?thesis
    using t1 t2 t3 assms(1) by cases (simp_all add: rot90_mat_def)
qed

lemma rot31_mat:
  assumes "mat_ok h w m"
  shows "transpose_mat h (rev (transpose_mat w (map rev m))) = m"
proof (rule mat_eqI [of h w])
  have len: "length m = h" using assms by (simp add: mat_ok_def)
  have "mat_ok h (length (rev (transpose_mat w (map rev m))))
          (transpose_mat h (rev (transpose_mat w (map rev m))))"
    by (rule mat_ok_transpose)
  then show "mat_ok h w (transpose_mat h (rev (transpose_mat w (map rev m))))"
    by (simp add: transpose_mat_def)
  show "mat_ok h w m" by fact
  fix i j assume ij: "i < h" "j < w"
  have lw: "length (m ! i) = w" using mat_ok_nth [OF assms ij(1)] .
  have "transpose_mat h (rev (transpose_mat w (map rev m))) ! i ! j
        = rev (transpose_mat w (map rev m)) ! j ! i"
    using ij by (simp add: nth_transpose_mat transpose_mat_def)
  also have "\<dots> = transpose_mat w (map rev m) ! (w - Suc j) ! i"
    using ij by (simp add: rev_nth transpose_mat_def)
  also have "\<dots> = map rev m ! i ! (w - Suc j)"
    using ij len by (simp add: nth_transpose_mat)
  also have "\<dots> = m ! i ! j"
    using ij len lw by (simp add: rev_nth)
  finally show "transpose_mat h (rev (transpose_mat w (map rev m))) ! i ! j = m ! i ! j" .
qed

lemma rot13_mat:
  assumes "mat_ok h w m"
  shows "transpose_mat h (map rev (transpose_mat w (rev m))) = m"
proof (rule mat_eqI [of h w])
  have len: "length m = h" using assms by (simp add: mat_ok_def)
  have "mat_ok h (length (map rev (transpose_mat w (rev m))))
          (transpose_mat h (map rev (transpose_mat w (rev m))))"
    by (rule mat_ok_transpose)
  then show "mat_ok h w (transpose_mat h (map rev (transpose_mat w (rev m))))"
    by (simp add: transpose_mat_def)
  show "mat_ok h w m" by fact
  fix i j assume ij: "i < h" "j < w"
  have lw: "length (m ! (h - Suc i)) = w"
    using mat_ok_nth [OF assms, of "h - Suc i"] ij by simp
  have "transpose_mat h (map rev (transpose_mat w (rev m))) ! i ! j
        = map rev (transpose_mat w (rev m)) ! j ! i"
    using ij by (simp add: nth_transpose_mat transpose_mat_def)
  also have "\<dots> = transpose_mat w (rev m) ! j ! (h - Suc i)"
    using ij len by (simp add: rev_nth transpose_mat_def)
  also have "\<dots> = rev m ! (h - Suc i) ! j"
    using ij len by (simp add: nth_transpose_mat)
  also have "\<dots> = m ! i ! j"
    using ij len by (simp add: rev_nth)
  finally show "transpose_mat h (map rev (transpose_mat w (rev m))) ! i ! j = m ! i ! j" .
qed

lemma rot90_mat_inverse:
  assumes "mat_ok h w m" and "k < 4"
  shows "rot90_mat ((4 - k) mod 4) (if odd k then h else w) (rot90_mat k w m) = m"
proof -
  from assms(2) consider "k = 0" | "k = 1" | "k = 2" | "k = 3" by linarith
  then show ?thesis
  proof cases
    case 1
    then show ?thesis by (simp add: rot90_mat_def)
  next
    case 2
    then show ?thesis using rot31_mat [OF assms(1)] by (simp add: rot90_mat_def)
  next
    case 3
    then show ?thesis by (simp add: rot90_mat_def rev_map)
  next
    case 4
    then show ?thesis using rot13_mat [OF assms(1)] by (simp add: rot90_mat_def)
  qed
qed

lemma mod4_cases:
  fixes k :: int
  obtains "k mod 4 = 0" | "k mod 4 = 1" | "k mod 4 = 2" | "k mod 4 = 3"
proof -
  have "0 \<le> k mod 4" "k mod 4 < 4" by simp_all
  then have "k mod 4 = 0 \<or> k mod 4 = 1 \<or> k mod 4 = 2 \<or> k mod 4 = 3" by linarith
  then show ?thesis using that by (elim disjE) simp_all
qed

lemma nat_mod4_less: "nat (k mod 4) < 4" for k :: int
  by (cases k rule: mod4_cases) simp_all

lemma neg_mod4: "(- k) mod 4 = (- (k mod 4)) mod 4" for k :: int
  by (simp add: mod_minus_eq)

lemma nat_neg_mod4: "nat ((- k) mod 4) = (4 - nat (k mod 4)) mod 4" for k :: int
  by (subst neg_mod4, cases k rule: mod4_cases) (simp_all del: mod_minus_eq)

lemma odd_neg_mod4: "odd (nat ((- k) mod 4)) = odd (nat (k mod 4))" for k :: int
  by (subst neg_mod4, cases k rule: mod4_cases) (simp_all del: mod_minus_eq)

lemma wf_iff:
  "wf t \<longleftrightarrow> length (elems t) = d0 t \<and>
     (\<forall>a \<in> set (elems t). length a = d1 t \<and> (\<forall>m \<in> set a. mat_ok (d2 t) (d3 t) m))"
  by (simp add: wf_def list_all_iff)

lemma torch_rot90_dims:
  "d0 (torch_rot90 k t) = d0 t" "d1 (torch_rot90 k t) = d1 t"
  "d2 (torch_rot90 k t) = (if odd (nat (k mod 4)) then d3 t else d2 t)"
  "d3 (torch_rot90 k t) = (if odd (nat (k mod 4)) then d2 t else d3 t)"
  "device (torch_rot90 k t) = device t" "dtype (torch_rot90 k t) = dtype t"
  "elems (torch_rot90 k t) = map (map (rot90_mat (nat (k mod 4)) (d3 t))) (elems t)"
  by (simp_all add: torch_rot90_def Let_def)

lemma wf_torch_rot90:
  assumes "wf t"
  shows "wf (torch_rot90 k t)"
proof -
  let ?k = "nat (k mod 4)"
  have k4: "?k < 4" by (rule nat_mod4_less)
  have m: "\<forall>m. mat_ok (d2 t) (d3 t) m \<longrightarrow>
      mat_ok (d2 (torch_rot90 k t)) (d3 (torch_rot90 k t)) (rot90_mat ?k (d3 t) m)"
  proof (intro allI impI)
    fix m assume "mat_ok (d2 t) (d3 t) m"
    from mat_ok_rot90 [OF this k4]
    show "mat_ok (d2 (torch_rot90 k t)) (d3 (torch_rot90 k t)) (rot90_mat ?k (d3 t) m)"
      by (simp add: torch_rot90_dims)
  qed
  show ?thesis
    unfolding wf_iff [of "torch_rot90 k t"]
    using assms m unfolding wf_iff [of t]
    by (auto simp add: torch_rot90_dims(1,2,7))
qed

lemma torch_rot90_inverse:
  assumes "wf t"
  shows "torch_rot90 (- k) (torch_rot90 k t) = t"
proof -
  let ?k = "nat (k mod 4)"
  have k4: "?k < 4" by (rule nat_mod4_less)
  have inv: "\<forall>m. mat_ok (d2 t) (d3 t) m \<longrightarrow>
     rot90_mat ((4 - ?k) mod 4) (if odd ?k then d2 t else d3 t) (rot90_mat ?k (d3 t) m) = m"
  proof (intro allI impI)
    fix m assume "mat_ok (d2 t) (d3 t) m"
    from rot90_mat_inverse [OF this k4]
    show "rot90_mat ((4 - ?k) mod 4) (if odd ?k then d2 t else d3 t)
            (rot90_mat ?k (d3 t) m) = m" .
  qed
  have "map (map (\<lambda>m. rot90_mat ((4 - ?k) mod 4) (if odd ?k then d2 t else d3 t)
            (rot90_mat ?k (d3 t) m))) (elems t) = elems t"
  proof (rule map_idI, rule map_idI)
    fix a m assume "a \<in> set (elems t)" "m \<in> set a"
    then have "mat_ok (d2 t) (d3 t) m" using assms by (simp add: wf_iff)
    then show "rot90_mat ((4 - ?k) mod 4) (if odd ?k then d2 t else d3 t)
            (rot90_mat ?k (d3 t) m) = m" using inv by blast
  qed
  then have e: "elems (torch_rot90 (- k) (torch_rot90 k t)) = elems t"
    by (simp add: torch_rot90_dims nat_neg_mod4 comp_def del: mod_minus_eq)
  have d: "d2 (torch_rot90 (- k) (torch_rot90 k t)) = d2 t"
       "d3 (torch_rot90 (- k) (torch_rot90 k t)) = d3 t"
    by (simp_all add: torch_rot90_dims odd_neg_mod4)
  show ?thesis
    by (rule tensor.equality) (simp_all add: e d, simp_all add: torch_rot90_def Let_def)
qed

lemma wf_torch_flip3: "wf t \<Longrightarrow> wf (torch_flip3 t)"
  by (simp add: wf_iff torch_flip3_def mat_ok_def list_all_iff)

lemma torch_flip3_flip3: "torch_flip3 (torch_flip3 t) = t"
  by (simp add: torch_flip3_def comp_def)

text \<open>
  C2. For every tensor \<open>t\<close>, every rotation count \<open>k\<close> (any integer, in particular 0, 1, 2
  and 3) and every flip flag, the transform of the augmentation loop (clone, optional flip
  along the width axis, rotation by \<open>k\<close> quarter turns) followed by its inverse (rotation by
  \<open>- k\<close>, then the flip when one was applied) gives \<open>t\<close> back; and a rotation by \<open>k\<close>
  followed by a rotation by \<open>- k\<close> is the identity. The hypothesis is the representation
  invariant of tensors.
\<close>

theorem augmentation_round_trip:
  assumes "wf t"
  shows "(let feed = clone t;
              feed = (if flip then torch_flip3 feed else feed);
              feed = torch_rot90 k feed;
              eps = torch_rot90 (- k) feed;
              eps = (if flip then torch_flip3 eps else eps)
          in eps) = t
         \<and> torch_rot90 (- k) (torch_rot90 k t) = t"
proof -
  have r: "torch_rot90 (- k) (torch_rot90 k t) = t"
    using assms by (rule torch_rot90_inverse)
  have f: "torch_rot90 (- k) (torch_rot90 k (torch_flip3 t)) = torch_flip3 t"
    using wf_torch_flip3 [OF assms] by (rule torch_rot90_inverse)
  show ?thesis
    using r f by (simp add: clone_def torch_flip3_flip3)
qed

theorem augmentation_round_trip_witness:
  "wf grid23
   \<and> torch_rot90 1 (torch_flip3 grid23)
       = \<lparr>d0 = 1, d1 = 1, d2 = 3, d3 = 2, elems = [[[[1, 4], [2, 5], [3, 6]]]],
          device = ''cpu'', dtype = Float32\<rparr>
   \<and> torch_flip3 (torch_rot90 (- 1) (torch_rot90 1 (torch_flip3 (clone grid23)))) = grid23
   \<and> torch_rot90 (- 1) (torch_rot90 1 grid23) = grid23"
proof -
  have w: "wf grid23"
    by (simp add: wf_def mat_ok_def grid23_def)
  have v: "torch_rot90 1 (torch_flip3 grid23)
       = \<lparr>d0 = 1, d1 = 1, d2 = 3, d3 = 2, elems = [[[[1, 4], [2, 5], [3, 6]]]],
          device = ''cpu'', dtype = Float32\<rparr>"
    by (simp add: torch_rot90_def torch_flip3_def grid23_def rot90_mat_def transpose_mat_def
        upt_conv_Cons)
  show ?thesis
    using w v augmentation_round_trip [OF w, of True 1] by simp
qed

section \<open>The channel precondition of decode_pixel\<close>

text \<open>
  C4. When dimension 1 of the pixel tensor is not 3, \<open>decode_pixel\<close> fails with the
  assertion error of its first statement, whatever the batch and spatial sizes, the latent
  and the decoder are, and the list of effects is empty: no tensor was moved to a device and
  the network was not called.
\<close>

theorem decode_pixel_channel_precondition:
  assumes "shape pixel ! 1 \<noteq> 3"
  shows "decode_pixel self pixel latent = ([], Inl (AssertionError ''Expected pixel.shape[1] == 3''))"
  using assms by (simp add: decode_pixel_def)

theorem decode_pixel_channel_precondition_witness:
  "shape rgba_pixel ! 1 \<noteq> 3
   \<and> decode_pixel echo_decoder rgba_pixel rgba_pixel
       = ([], Inl (AssertionError ''Expected pixel.shape[1] == 3''))"
proof -
  have h: "shape rgba_pixel ! 1 \<noteq> 3" by (simp add: shape_def rgba_pixel_def)
  show ?thesis using h decode_pixel_channel_precondition [OF h] by simp
qed

section \<open>The size bound of the compositor\<close>

lemma fill_small:
  assumes "d1 y < 64 \<or> d2 y < 64"
  shows "fill_checkerboard_bg y = Inl (CvError ''(-215:Assertion failed) !ssize.empty()'')"
proof -
  have "d1 y div 64 = 0 \<or> d2 y div 64 = 0" using assms by auto
  then show ?thesis
    by (auto simp add: fill_checkerboard_bg_def cv2_resize_nearest_def Let_def)
qed

lemma fill_large:
  assumes "64 \<le> d1 y" "64 \<le> d2 y"
  shows "\<exists>vis. fill_checkerboard_bg y = Inr vis"
proof -
  have "d1 y div 64 \<noteq> 0" "d2 y div 64 \<noteq> 0" "d1 y \<noteq> 0" "d2 y \<noteq> 0"
    using assms by (auto simp add: div_eq_0_iff)
  then show ?thesis
    by (simp add: fill_checkerboard_bg_def cv2_resize_nearest_def Let_def)
qed

text \<open>
  C10. \<open>fill_checkerboard_bg\<close> returns a result exactly on the inputs whose height and
  width are both at least 64. When the height or the width is below 64, the checkerboard of
  shape \<open>(H div 64, W div 64)\<close> is empty and the call fails with the error of the resize.
\<close>

theorem compositor_needs_64:
  "(d1 y < 64 \<or> d2 y < 64 \<longrightarrow>
      fill_checkerboard_bg y = Inl (CvError ''(-215:Assertion failed) !ssize.empty()''))
   \<and> ((\<exists>vis. fill_checkerboard_bg y = Inr vis) \<longleftrightarrow> 64 \<le> d1 y \<and> 64 \<le> d2 y)"
proof -
  have a: "d1 y < 64 \<or> d2 y < 64 \<longrightarrow>
      fill_checkerboard_bg y = Inl (CvError ''(-215:Assertion failed) !ssize.empty()'')"
    using fill_small by blast
  have b: "(\<exists>vis. fill_checkerboard_bg y = Inr vis) \<longrightarrow> 64 \<le> d1 y \<and> 64 \<le> d2 y"
  proof
    assume ex: "\<exists>vis. fill_checkerboard_bg y = Inr vis"
    show "64 \<le> d1 y \<and> 64 \<le> d2 y"
    proof (rule ccontr)
      assume "\<not> (64 \<le> d1 y \<and> 64 \<le> d2 y)"
      then have "d1 y < 64 \<or> d2 y < 64" by auto
      from fill_small [OF this] ex show False by simp
    qed
  qed
  have c: "64 \<le> d1 y \<and> 64 \<le> d2 y \<longrightarrow> (\<exists>vis. fill_checkerboard_bg y = Inr vis)"
    using fill_large by blast
  show ?thesis using a b c by blast
qed

theorem compositor_needs_64_witness:
  "(d1 rgba_pixel < 64 \<or> d2 rgba_pixel < 64)
   \<and> fill_checkerboard_bg rgba_pixel = Inl (CvError ''(-215:Assertion failed) !ssize.empty()'')
   \<and> \<not> (\<exists>vis. fill_checkerboard_bg rgba_pixel = Inr vis)"
proof -
  have h: "d1 rgba_pixel < 64 \<or> d2 rgba_pixel < 64" by (simp add: rgba_pixel_def)
  have n: "\<not> (64 \<le> d1 rgba_pixel \<and> 64 \<le> d2 rgba_pixel)" by (simp add: rgba_pixel_def)
  show ?thesis using h n compositor_needs_64 [of rgba_pixel] by blast
qed

section \<open>The offset encoder\<close>

lemma nn_Conv2d_sel:
  "in_channels (nn_Conv2d init cin cout k p s) = cin"
  "out_channels (nn_Conv2d init cin cout k p s) = cout"
  "kernel_size (nn_Conv2d init cin cout k p s) = k"
  "padding (nn_Conv2d init cin cout k p s) = p"
  "stride (nn_Conv2d init cin cout k p s) = s"
  by (simp_all add: nn_Conv2d_def)

lemma zero_module_sel:
  "in_channels (zero_module m) = in_channels m"
  "out_channels (zero_module m) = out_channels m"
  "kernel_size (zero_module m) = kernel_size m"
  "padding (zero_module m) = padding m"
  "stride (zero_module m) = stride m"
  by (simp_all add: zero_module_def)

lemma zero_module_parameters:
  "parameters (zero_module m) = replicate (length (parameters m)) 0"
  by (simp add: zero_module_def parameters_def map_replicate_const replicate_add)

lemma conv3_stride1:
  assumes "in_channels c = ch" "kernel_size c = 3" "padding c = 1" "stride c = 1"
    and "0 < h" "0 < w"
  shows "conv2d_shape c [n, ch, h, w] = Inr [n, out_channels c, h, w]"
  using assms by (simp add: conv2d_check_def conv_out_size_def)

lemma conv3_stride2:
  assumes "in_channels c = ch" "kernel_size c = 3" "padding c = 1" "stride c = 2"
    and "0 < h" "0 < w"
  shows "conv2d_shape c [n, ch, h, w] = Inr [n, out_channels c, (h - 1) div 2 + 1, (w - 1) div 2 + 1]"
  using assms by (simp add: conv2d_check_def conv_out_size_def)

lemma three_halvings:
  fixes h :: nat
  assumes "0 < h"
  shows "(((h - 1) div 2 + 1 - 1) div 2 + 1 - 1) div 2 + 1 = (h + 7) div 8"
proof -
  have "(((h - 1) div 2 + 1 - 1) div 2 + 1 - 1) div 2 + 1 = (h - 1) div 2 div 2 div 2 + 1"
    by simp
  also have "\<dots> = (h - 1) div 8 + 1"
    by (simp add: div_mult2_eq [symmetric])
  also have "\<dots> = (h - 1 + 8) div 8"
    by simp
  also have "h - 1 + 8 = h + 7"
    using assms by simp
  finally show ?thesis .
qed

lemma offset_encoder_shape:
  assumes "0 < h" "0 < w"
  shows "offset_encoder_call_shape init [n, 4, h, w] = Inr [n, 4, (h + 7) div 8, (w + 7) div 8]"
proof -
  have "offset_encoder_call_shape init [n, 4, h, w]
        = Inr [n, 4, (((h - 1) div 2 + 1 - 1) div 2 + 1 - 1) div 2 + 1,
                     (((w - 1) div 2 + 1 - 1) div 2 + 1 - 1) div 2 + 1]"
    using assms
    by (simp add: offset_encoder_call_shape_def offset_encoder_blocks_def
        conv3_stride1 conv3_stride2 nn_Conv2d_sel zero_module_sel
        del: conv2d_shape.simps)
  then show ?thesis using assms by (simp only: three_halvings)
qed

lemma offset_encoder_structure:
  "length (offset_encoder_blocks init) = 17"
  "map is_conv (offset_encoder_blocks init)
     = [True, False, True, False, True, False, True, False, True, False, True, False,
        True, False, True, False, True]"
  "map in_channels (convs (offset_encoder_blocks init)) = [4, 32, 32, 64, 64, 128, 128, 256, 256]"
  "map out_channels (convs (offset_encoder_blocks init)) = [32, 32, 64, 64, 128, 128, 256, 256, 4]"
  "map stride (convs (offset_encoder_blocks init)) = [1, 1, 2, 1, 2, 1, 2, 1, 1]"
  "map kernel_size (convs (offset_encoder_blocks init)) = [3, 3, 3, 3, 3, 3, 3, 3, 3]"
  "map padding (convs (offset_encoder_blocks init)) = [1, 1, 1, 1, 1, 1, 1, 1, 1]"
  by (simp_all add: offset_encoder_blocks_def convs_def nn_Conv2d_sel zero_module_sel)

lemma zero_module_all_zero: "set (parameters (zero_module m)) \<subseteq> {0}"
  by (auto simp add: zero_module_parameters)

lemma offset_encoder_last_zero:
  "set (parameters (last (convs (offset_encoder_blocks init)))) \<subseteq> {0}"
proof -
  have "last (convs (offset_encoder_blocks init)) = zero_module (nn_Conv2d init 256 4 3 1 1)"
    by (simp add: offset_encoder_blocks_def convs_def)
  then show ?thesis by (simp only: zero_module_all_zero)
qed


text \<open>
  C8, as the code has it. The offset encoder is a sequential stack of 17 modules: 9
  convolutions with a SiLU between each two, of channel widths 4, 32, 32, 64, 64, 128, 128,
  256, 256, 4, kernel size 3 and padding 1, of strides 1, 1, 2, 1, 2, 1, 2, 1, 1, whose last
  convolution has all its parameters zero. On an input of shape \<open>(n, 4, h, w)\<close> with
  positive \<open>h\<close> and \<open>w\<close> it returns a tensor of shape \<open>(n, 4, (h + 7) div 8, (w + 7) div 8)\<close>:
  the batch size is kept, the channel count is 4, and each spatial size is divided by 8,
  rounded up, by the three convolutions of stride 2.
\<close>

theorem offset_encoder_stack:
  "length (offset_encoder_blocks init) = 17
   \<and> map is_conv (offset_encoder_blocks init)
       = [True, False, True, False, True, False, True, False, True, False, True, False,
          True, False, True, False, True]
   \<and> map in_channels (convs (offset_encoder_blocks init)) = [4, 32, 32, 64, 64, 128, 128, 256, 256]
   \<and> map out_channels (convs (offset_encoder_blocks init)) = [32, 32, 64, 64, 128, 128, 256, 256, 4]
   \<and> map stride (convs (offset_encoder_blocks init)) = [1, 1, 2, 1, 2, 1, 2, 1, 1]
   \<and> map kernel_size (convs (offset_encoder_blocks init)) = [3, 3, 3, 3, 3, 3, 3, 3, 3]
   \<and> map padding (convs (offset_encoder_blocks init)) = [1, 1, 1, 1, 1, 1, 1, 1, 1]
   \<and> set (parameters (last (convs (offset_encoder_blocks init)))) \<subseteq> {0}
   \<and> (0 < h \<and> 0 < w \<longrightarrow>
        offset_encoder_call_shape init [n, 4, h, w] = Inr [n, 4, (h + 7) div 8, (w + 7) div 8])"
  using offset_encoder_structure [of init] offset_encoder_last_zero [of init]
    offset_encoder_shape [of h w init n]
  by blast

theorem offset_encoder_stack_witness:
  "(0::nat) < 64 \<and> (0::nat) < 48
   \<and> offset_encoder_call_shape zero_init [2, 4, 64, 48] = Inr [2, 4, 8, 6]"
  using offset_encoder_stack [of zero_init 64 48 2] by simp

text \<open>
  The claim as stated fails: on an input of shape \<open>(1, 4, 64, 64)\<close> the spatial sizes are not
  preserved, the stack has 17 modules and not 13, and the strides do not alternate.
\<close>

theorem offset_encoder_not_shape_preserving:
  "offset_encoder_call_shape zero_init [1, 4, 64, 64] = Inr [1, 4, 8, 8]
   \<and> offset_encoder_call_shape zero_init [1, 4, 64, 64] \<noteq> Inr [1, 4, 64, 64]
   \<and> length (offset_encoder_blocks zero_init) \<noteq> 13
   \<and> map stride (convs (offset_encoder_blocks zero_init)) = [1, 1, 2, 1, 2, 1, 2, 1, 1]"
proof -
  have "offset_encoder_call_shape zero_init [1, 4, 64, 64] = Inr [1, 4, 8, 8]"
    using offset_encoder_shape [of 64 64 zero_init 1] by simp
  then show ?thesis
    using offset_encoder_structure(1,5) [of zero_init] by simp
qed

section \<open>The skip-connection stack of UNet1024.forward\<close>

lemma decoder_unet_cfg_eq: "decoder_unet_cfg init = Inr (built_cfg init)"
  by (simp add: decoder_unet_cfg_def UNet1024_init_def py_index_def default_down_block_types_def
      default_up_block_types_def default_block_out_channels_def built_cfg_def)









section \<open>The injection of the latent in UNet1024.forward\<close>

lemma down_loop_seven:
  "down_loop 0 [b0, b1, b2, b3, b4, b5, b6] s0 sl res =
     (let (s1, r1) = dfwd b0 s0;
          (s2, r2) = dfwd b1 s1;
          (s3, r3) = dfwd b2 s2;
          (s4, r4) = dfwd b3 (s3 + sl);
          (s5, r5) = dfwd b4 s4;
          (s6, r6) = dfwd b5 s5;
          (s7, r7) = dfwd b6 s6
      in (s7, res @ r1 @ r2 @ r3 @ r4 @ r5 @ r6 @ r7))"
  by (simp add: Let_def case_prod_beta numeral_3_eq_3)

lemma inject_after_2_seven:
  "down_loop_inject_after 2 0 [b0, b1, b2, b3, b4, b5, b6] s0 sl res =
     (let (s1, r1) = dfwd b0 s0;
          (s2, r2) = dfwd b1 s1;
          (s3, r3) = dfwd b2 s2;
          (s4, r4) = dfwd b3 (s3 + sl);
          (s5, r5) = dfwd b4 s4;
          (s6, r6) = dfwd b5 s5;
          (s7, r7) = dfwd b6 s6
      in (s7, res @ r1 @ r2 @ r3 @ r4 @ r5 @ r6 @ r7))"
  by (simp add: Let_def case_prod_beta numeral_2_eq_2)

lemma built_cfg_latent:
  "latent_conv_in_cfg (built_cfg init) = zero_module (nn_Conv2d init 4 64 1 0 1)"
  "d_out_channels (down_cfgs (built_cfg init) ! 2) = 64"
  "d_in_channels (down_cfgs (built_cfg init) ! 3) = 64"
  by (simp_all add: built_cfg_def)

text \<open>
  C6, as the code has it. In the network that the decoder builds, \<open>latent_conv_in\<close> is a
  zero-initialised convolution from 4 channels to the output width of the third down block
  (index 2), which is 64 and is also the input width of the fourth (index 3). In the forward
  pass the projected latent is added to the running sample after the third down block has
  produced its output and before the fourth consumes it: the down pass is the composition
  below, and it is the loop that injects after the down block of index 2, zero-indexed.
\<close>

theorem latent_injection_point:
  assumes cfg: "decoder_unet_cfg init = Inr cfg"
    and blocks: "down_blocks net = [b0, b1, b2, b3, b4, b5, b6]"
  shows "latent_conv_in_cfg cfg
           = zero_module (nn_Conv2d init 4 (d_out_channels (down_cfgs cfg ! 2)) 1 0 1)
     \<and> set (parameters (latent_conv_in_cfg cfg)) \<subseteq> {0}
     \<and> out_channels (latent_conv_in_cfg cfg) = d_out_channels (down_cfgs cfg ! 2)
     \<and> out_channels (latent_conv_in_cfg cfg) = d_in_channels (down_cfgs cfg ! 3)
     \<and> down_pass net x latent =
         (let s0 = conv_in net x;
              (s1, r1) = dfwd b0 s0;
              (s2, r2) = dfwd b1 s1;
              (s3, r3) = dfwd b2 s2;
              (s4, r4) = dfwd b3 (s3 + latent_conv_in net latent);
              (s5, r5) = dfwd b4 s4;
              (s6, r6) = dfwd b5 s5;
              (s7, r7) = dfwd b6 s6
          in (s7, [s0] @ r1 @ r2 @ r3 @ r4 @ r5 @ r6 @ r7))
     \<and> down_pass net x latent =
         down_loop_inject_after 2 0 (down_blocks net) (conv_in net x) (latent_conv_in net latent)
           [conv_in net x]"
proof -
  have c: "cfg = built_cfg init" using cfg by (simp add: decoder_unet_cfg_eq)
  have p1: "latent_conv_in_cfg cfg
           = zero_module (nn_Conv2d init 4 (d_out_channels (down_cfgs cfg ! 2)) 1 0 1)"
    by (simp only: c built_cfg_latent)
  have p2: "set (parameters (latent_conv_in_cfg cfg)) \<subseteq> {0}"
    by (simp only: c built_cfg_latent zero_module_all_zero)
  have p3: "out_channels (latent_conv_in_cfg cfg) = d_out_channels (down_cfgs cfg ! 2)"
    by (simp only: c built_cfg_latent zero_module_sel nn_Conv2d_sel)
  have p4: "out_channels (latent_conv_in_cfg cfg) = d_in_channels (down_cfgs cfg ! 3)"
    by (simp only: c built_cfg_latent zero_module_sel nn_Conv2d_sel)
  have p5: "down_pass net x latent =
         (let s0 = conv_in net x;
              (s1, r1) = dfwd b0 s0;
              (s2, r2) = dfwd b1 s1;
              (s3, r3) = dfwd b2 s2;
              (s4, r4) = dfwd b3 (s3 + latent_conv_in net latent);
              (s5, r5) = dfwd b4 s4;
              (s6, r6) = dfwd b5 s5;
              (s7, r7) = dfwd b6 s6
          in (s7, [s0] @ r1 @ r2 @ r3 @ r4 @ r5 @ r6 @ r7))"
    unfolding down_pass_def blocks Let_def down_loop_seven ..
  have p6: "down_pass net x latent =
         down_loop_inject_after 2 0 (down_blocks net) (conv_in net x) (latent_conv_in net latent)
           [conv_in net x]"
    unfolding down_pass_def blocks Let_def down_loop_seven inject_after_2_seven ..
  show ?thesis using p1 p2 p3 p4 p5 p6 by blast
qed

lemma counting_net_sel:
  "down_blocks (counting_net cfg) = map counting_down_block (down_cfgs cfg)"
  "conv_in (counting_net cfg) x = x"
  "latent_conv_in (counting_net cfg) x = x"
  by (simp_all add: counting_net_def)

lemma counting_dfwd: "fst (dfwd (counting_down_block c) x) = 2 * x"
  by (simp add: counting_down_block_def)

lemma built_cfg_seven_down:
  "\<exists>c0 c1 c2 c3 c4 c5 c6. down_cfgs (built_cfg init) = [c0, c1, c2, c3, c4, c5, c6]"
  by (simp add: built_cfg_def)

text \<open>
  The injection point is not "after down-stage index 3, zero-indexed": on the network of
  doubling blocks, with input 1 and latent 1, the code returns \<open>(8 + 1) * 16 = 144\<close>, and
  the loop that injects after the block of index 3 returns \<open>(16 + 1) * 8 = 136\<close>.
\<close>

theorem latent_injection_not_after_stage_3:
  "fst (down_pass (counting_net (built_cfg zero_init)) 1 1) = 144
   \<and> fst (down_loop_inject_after 3 0 (down_blocks (counting_net (built_cfg zero_init)))
            (conv_in (counting_net (built_cfg zero_init)) 1)
            (latent_conv_in (counting_net (built_cfg zero_init)) 1)
            [conv_in (counting_net (built_cfg zero_init)) 1]) = 136"
proof -
  obtain c0 c1 c2 c3 c4 c5 c6
    where "down_cfgs (built_cfg zero_init) = [c0, c1, c2, c3, c4, c5, c6]"
    using built_cfg_seven_down by blast
  then show ?thesis
    by (simp add: down_pass_def counting_net_sel counting_dfwd Let_def case_prod_beta
        numeral_3_eq_3)
qed


lemma counting_blocks_listed:
  "down_blocks (counting_net (built_cfg init)) =
     [counting_down_block (down_cfgs (built_cfg init) ! 0),
      counting_down_block (down_cfgs (built_cfg init) ! 1),
      counting_down_block (down_cfgs (built_cfg init) ! 2),
      counting_down_block (down_cfgs (built_cfg init) ! 3),
      counting_down_block (down_cfgs (built_cfg init) ! 4),
      counting_down_block (down_cfgs (built_cfg init) ! 5),
      counting_down_block (down_cfgs (built_cfg init) ! 6)]"
proof -
  obtain c0 c1 c2 c3 c4 c5 c6
    where "down_cfgs (built_cfg init) = [c0, c1, c2, c3, c4, c5, c6]"
    using built_cfg_seven_down by blast
  then show ?thesis by (simp add: counting_net_sel)
qed

theorem latent_injection_point_witness:
  "decoder_unet_cfg zero_init = Inr (built_cfg zero_init)
   \<and> down_blocks (counting_net (built_cfg zero_init)) =
       [counting_down_block (down_cfgs (built_cfg zero_init) ! 0),
        counting_down_block (down_cfgs (built_cfg zero_init) ! 1),
        counting_down_block (down_cfgs (built_cfg zero_init) ! 2),
        counting_down_block (down_cfgs (built_cfg zero_init) ! 3),
        counting_down_block (down_cfgs (built_cfg zero_init) ! 4),
        counting_down_block (down_cfgs (built_cfg zero_init) ! 5),
        counting_down_block (down_cfgs (built_cfg zero_init) ! 6)]
   \<and> out_channels (latent_conv_in_cfg (built_cfg zero_init)) = 64
   \<and> fst (down_pass (counting_net (built_cfg zero_init)) 1 1) = (((1 * 2) * 2) * 2 + 1) * 16"
proof -
  have a: "decoder_unet_cfg zero_init = Inr (built_cfg zero_init)" by (rule decoder_unet_cfg_eq)
  note b = counting_blocks_listed [of zero_init]
  have c: "d_out_channels (down_cfgs (built_cfg zero_init) ! 2) = 64" by (rule built_cfg_latent)
  show ?thesis
    using a b c latent_injection_point [OF a b, of 1 1]
    by (simp add: counting_net_sel counting_dfwd case_prod_beta Let_def zero_module_sel
        nn_Conv2d_sel)
qed

section \<open>The augmentation loop\<close>

lemma augment_loop_Cons:
  "augment_loop self pixel latent (a # as) result =
     (case model self (augment a pixel) (augment a latent) of
        Inl e \<Rightarrow> ([Forward (augment a pixel) (augment a latent)], Inl e)
      | Inr out \<Rightarrow>
          (Forward (augment a pixel) (augment a latent)
             # fst (augment_loop self pixel latent as (result @ [restore a out])),
           snd (augment_loop self pixel latent as (result @ [restore a out]))))"
  by (cases a)
    (simp add: augment_def restore_def estimate_single_pass_def Let_def case_prod_beta
      split: sum.splits)

lemma augment_loop_success:
  assumes "\<forall>a \<in> set as. \<exists>out. model self (augment a pixel) (augment a latent) = Inr out"
  shows "augment_loop self pixel latent as result =
           (map (\<lambda>a. Forward (augment a pixel) (augment a latent)) as,
            Inr (result @ map (\<lambda>a. restore a (projr (model self (augment a pixel) (augment a latent)))) as))"
  using assms
proof (induction as arbitrary: result)
  case Nil
  then show ?case by simp
next
  case (Cons a as)
  obtain out where out: "model self (augment a pixel) (augment a latent) = Inr out"
    using Cons.prems by auto
  have rest: "\<forall>a \<in> set as. \<exists>out. model self (augment a pixel) (augment a latent) = Inr out"
    using Cons.prems by simp
  show ?case
    by (simp add: augment_loop_Cons out Cons.IH [OF rest])
qed


section \<open>Properties of the tensor operations\<close>

lemma all4_iff:
  "all4 P xs \<longleftrightarrow> (\<forall>a \<in> set xs. \<forall>b \<in> set a. \<forall>c \<in> set b. \<forall>v \<in> set c. P v)"
  by (simp add: all4_def list_all_iff)

lemma ex4_iff:
  "ex4 P xs \<longleftrightarrow> (\<exists>a \<in> set xs. \<exists>b \<in> set a. \<exists>c \<in> set b. \<exists>v \<in> set c. P v)"
  by (simp add: ex4_def list_ex_iff)

lemma all4_not_ex4: "all4 (\<lambda>v. \<not> P v) xs \<longleftrightarrow> \<not> ex4 P xs"
  by (auto simp add: all4_iff ex4_iff)

lemma all4_mono: "all4 P xs \<Longrightarrow> (\<And>v. P v \<Longrightarrow> Q v) \<Longrightarrow> all4 Q xs"
  by (auto simp add: all4_iff)

lemma in01_clipv: "\<not> isnan v \<Longrightarrow> in01 (clipv 0 1 v)"
  by (cases v) simp_all

lemma in01_finite: "in01 v \<Longrightarrow> \<not> isnan v \<and> \<not> isinf v"
  by (cases v) simp_all

lemma clip_sel:
  "d0 (clip lo hi t) = d0 t" "d1 (clip lo hi t) = d1 t" "d2 (clip lo hi t) = d2 t"
  "d3 (clip lo hi t) = d3 t" "device (clip lo hi t) = device t" "dtype (clip lo hi t) = dtype t"
  "elems (clip lo hi t) = map4 (clipv lo hi) (elems t)"
  by (simp_all add: clip_def)

lemma wf_clip: "wf t \<Longrightarrow> wf (clip lo hi t)"
  by (simp add: wf_iff clip_sel map4_def mat_ok_def list_all_iff)

lemma all4_map4: "all4 P (map4 f xs) \<longleftrightarrow> all4 (\<lambda>v. P (f v)) xs"
  by (simp add: all4_iff map4_def)

lemma all4_clip: "\<not> ex4 isnan (elems t) \<Longrightarrow> all4 in01 (elems (clip 0 1 t))"
  unfolding clip_sel all4_map4 all4_not_ex4 [symmetric]
  by (erule all4_mono) (rule in01_clipv)

lemma flip3_sel:
  "d0 (torch_flip3 t) = d0 t" "d1 (torch_flip3 t) = d1 t" "d2 (torch_flip3 t) = d2 t"
  "d3 (torch_flip3 t) = d3 t" "device (torch_flip3 t) = device t" "dtype (torch_flip3 t) = dtype t"
  "elems (torch_flip3 t) = map (map (map rev)) (elems t)"
  by (simp_all add: torch_flip3_def)

lemma all4_flip3: "all4 P (elems (torch_flip3 t)) \<longleftrightarrow> all4 P (elems t)"
  by (simp add: all4_iff flip3_sel)

lemma to_sel:
  "d0 (tensor_to dev dt t) = d0 t" "d1 (tensor_to dev dt t) = d1 t" "d2 (tensor_to dev dt t) = d2 t"
  "d3 (tensor_to dev dt t) = d3 t" "device (tensor_to dev dt t) = dev" "dtype (tensor_to dev dt t) = dt"
  "elems (tensor_to dev dt t) = elems t"
  by (simp_all add: tensor_to_def)

lemma wf_tensor_to: "wf (tensor_to dev dt t) \<longleftrightarrow> wf t"
  by (simp add: wf_iff to_sel)

lemma matP_transpose:
  assumes "matP P m" and "list_all (\<lambda>r. length r = w) m"
  shows "matP P (transpose_mat w m)"
  using assms by (auto simp add: matP_def transpose_mat_def list_all_iff)

lemma matP_rot90:
  assumes "matP P m" and "mat_ok h w m"
  shows "matP P (rot90_mat k w m)"
proof -
  have a: "matP P (map rev m)" "matP P (rev m)" "matP P (rev (map rev m))"
    using assms(1) by (auto simp add: matP_def)
  have b: "list_all (\<lambda>r. length r = w) (map rev m)" "list_all (\<lambda>r. length r = w) (rev m)"
    using assms(2) by (auto simp add: mat_ok_def list_all_iff)
  show ?thesis
    using a b assms(1) matP_transpose [of P _ w] by (simp add: rot90_mat_def)
qed

lemma all4_matP: "all4 P xs \<longleftrightarrow> (\<forall>a \<in> set xs. \<forall>m \<in> set a. matP P m)"
  by (simp add: all4_iff matP_def)

lemma all4_rot90:
  assumes "all4 P (elems t)" and "wf t"
  shows "all4 P (elems (torch_rot90 k t))"
  using assms matP_rot90 [of P _ "d2 t" "d3 t"]
  by (auto simp add: all4_matP torch_rot90_dims(7) wf_iff)

lemma augment_sel:
  "d0 (augment a t) = d0 t" "d1 (augment a t) = d1 t"
  "d2 (augment a t) = (if odd (nat (snd a mod 4)) then d3 t else d2 t)"
  "d3 (augment a t) = (if odd (nat (snd a mod 4)) then d2 t else d3 t)"
  "device (augment a t) = device t" "dtype (augment a t) = dtype t"
  by (cases a; simp add: augment_def clone_def torch_rot90_dims flip3_sel)+

lemma restore_props:
  assumes "wf out"
    and "d2 out = d2 (augment a pixel)" and "d3 out = d3 (augment a pixel)"
  shows "wf (restore a out)"
    and "d0 (restore a out) = d0 out" and "d1 (restore a out) = d1 out"
    and "d2 (restore a out) = d2 pixel" and "d3 (restore a out) = d3 pixel"
    and "device (restore a out) = device out" and "dtype (restore a out) = dtype out"
    and "\<not> ex4 isnan (elems out) \<Longrightarrow> all4 in01 (elems (restore a out))"
proof -
  obtain flip rok where a: "a = (flip, rok)" by (cases a)
  let ?e = "torch_rot90 (- rok) (clip 0 1 out)"
  have we: "wf ?e" using assms(1) by (intro wf_torch_rot90 wf_clip)
  have r: "restore a out = (if flip then torch_flip3 ?e else ?e)"
    by (simp add: restore_def a Let_def)
  have d: "d2 out = (if odd (nat (rok mod 4)) then d3 pixel else d2 pixel)"
      "d3 out = (if odd (nat (rok mod 4)) then d2 pixel else d3 pixel)"
    using assms(2,3) by (simp_all add: a augment_sel)
  show "wf (restore a out)" using we by (simp add: r wf_torch_flip3)
  show "d0 (restore a out) = d0 out" "d1 (restore a out) = d1 out"
       "device (restore a out) = device out" "dtype (restore a out) = dtype out"
    by (simp_all add: r flip3_sel torch_rot90_dims clip_sel)
  show "d2 (restore a out) = d2 pixel" "d3 (restore a out) = d3 pixel"
    using d
    by (simp_all add: r flip3_sel torch_rot90_dims clip_sel odd_neg_mod4 del: mod_minus_eq)
  show "all4 in01 (elems (restore a out))" if "\<not> ex4 isnan (elems out)"
  proof -
    have "all4 in01 (elems (clip 0 1 out))" using that by (rule all4_clip)
    then have "all4 in01 (elems ?e)" using wf_clip [OF assms(1)] by (rule all4_rot90)
    then show ?thesis by (simp add: r all4_flip3)
  qed
qed

lemma torch_stack_same_shape:
  assumes "ts \<noteq> []" and "\<forall>u \<in> set ts. shape u = s"
  shows "torch_stack ts = Inr ts"
  using assms by (cases ts) (simp_all add: torch_stack_def list_all_iff)

lemma torch_stack_Inr_D:
  assumes "torch_stack ts = Inr st"
  shows "st = ts" and "ts \<noteq> []" and "\<forall>u \<in> set ts. shape u = shape (hd ts)"
  using assms by (cases ts; simp add: torch_stack_def list_all_iff split: if_splits)+

lemma any_isnan_iff: "any_isnan st \<longleftrightarrow> (\<exists>t \<in> set st. ex4 isnan (elems t))"
  by (simp add: any_isnan_def list_ex_iff)

lemma any_isinf_iff: "any_isinf st \<longleftrightarrow> (\<exists>t \<in> set st. ex4 isinf (elems t))"
  by (simp add: any_isinf_def list_ex_iff)

lemma nth4_all4:
  assumes "wf u" and "all4 P (elems u)"
    and "b < d0 u" "c < d1 u" "h < d2 u" "w < d3 u"
  shows "P (elems u ! b ! c ! h ! w)"
proof -
  have 1: "elems u ! b \<in> set (elems u)" using assms(1,3) by (simp add: wf_iff)
  then have "length (elems u ! b) = d1 u" using assms(1) by (simp add: wf_iff)
  then have 2: "elems u ! b ! c \<in> set (elems u ! b)" using assms(4) by simp
  then have m: "mat_ok (d2 u) (d3 u) (elems u ! b ! c)" using assms(1) 1 by (simp add: wf_iff)
  then have 3: "elems u ! b ! c ! h \<in> set (elems u ! b ! c)"
    using assms(5) by (simp add: mat_ok_def)
  have "length (elems u ! b ! c ! h) = d3 u" using mat_ok_nth [OF m assms(5)] .
  then have 4: "elems u ! b ! c ! h ! w \<in> set (elems u ! b ! c ! h)" using assms(6) by simp
  show ?thesis using assms(2) 1 2 3 4 unfolding all4_iff by blast
qed

lemma foldl_fadd_in01:
  assumes "\<forall>v \<in> set vs. in01 v"
  shows "\<exists>s'. foldl fadd (Fin s) vs = Fin s' \<and> s \<le> s' \<and> s' \<le> s + real (length vs)"
  using assms
proof (induction vs arbitrary: s)
  case Nil
  then show ?case by simp
next
  case (Cons v vs)
  then obtain r where v: "v = Fin r" "0 \<le> r" "r \<le> 1" by (cases v) auto
  obtain s' where "foldl fadd (Fin (s + r)) vs = Fin s'" "s + r \<le> s'"
      "s' \<le> s + r + real (length vs)"
    using Cons.IH [of "s + r"] Cons.prems by auto
  then show ?case using v by auto
qed

lemma mean_vals_in01:
  assumes "vs \<noteq> []" and "\<forall>v \<in> set vs. in01 v"
  shows "in01 (mean_vals vs)"
proof -
  obtain s where s: "foldl fadd (Fin 0) vs = Fin s" "0 \<le> s" "s \<le> real (length vs)"
    using foldl_fadd_in01 [OF assms(2), of 0] by auto
  have "0 < real (length vs)" using assms(1) by simp
  then have "s / real (length vs) \<le> 1" "0 \<le> s / real (length vs)" using s(2,3) by simp_all
  then show ?thesis by (simp add: mean_vals_def s(1))
qed

lemma torch_mean0_sel:
  "d0 (torch_mean0 (t # rest)) = d0 t" "d1 (torch_mean0 (t # rest)) = d1 t"
  "d2 (torch_mean0 (t # rest)) = d2 t" "d3 (torch_mean0 (t # rest)) = d3 t"
  "device (torch_mean0 (t # rest)) = device t" "dtype (torch_mean0 (t # rest)) = dtype t"
  by simp_all

lemma wf_torch_mean0: "wf (torch_mean0 (t # rest))"
  by (simp add: wf_iff mat_ok_def list_all_iff)

lemma torch_mean0_nth:
  assumes "b < d0 t" "c < d1 t" "h < d2 t" "w < d3 t"
  shows "elems (torch_mean0 (t # rest)) ! b ! c ! h ! w
         = mean_vals (map (\<lambda>u. elems u ! b ! c ! h ! w) (t # rest))"
  using assms by simp

lemma all4_tabulate:
  "all4 P (map (\<lambda>b. map (\<lambda>c. map (\<lambda>h. map (\<lambda>w. F b c h w) [0..<n3]) [0..<n2]) [0..<n1]) [0..<n0])
   \<longleftrightarrow> (\<forall>b<n0. \<forall>c<n1. \<forall>h<n2. \<forall>w<n3. P (F b c h w))"
  by (simp add: all4_def list_all_iff) auto

lemma elems_torch_mean0:
  "elems (torch_mean0 (t # rest)) =
     map (\<lambda>b. map (\<lambda>c. map (\<lambda>h. map (\<lambda>w.
               mean_vals (map (\<lambda>u. elems u ! b ! c ! h ! w) (t # rest)))
             [0..<d3 t]) [0..<d2 t]) [0..<d1 t]) [0..<d0 t]"
  by simp

lemma all4_torch_mean0_gen:
  assumes closed: "\<And>vs. vs \<noteq> [] \<Longrightarrow> \<forall>v \<in> set vs. P v \<Longrightarrow> P (mean_vals vs)"
    and slices: "\<forall>u \<in> set (t # rest). wf u \<and> shape u = shape t \<and> all4 P (elems u)"
  shows "all4 P (elems (torch_mean0 (t # rest)))"
proof -
  have v: "P (mean_vals (map (\<lambda>u. elems u ! b ! c ! h ! w) (t # rest)))"
    if "b < d0 t" "c < d1 t" "h < d2 t" "w < d3 t" for b c h w
  proof (rule closed)
    show "map (\<lambda>u. elems u ! b ! c ! h ! w) (t # rest) \<noteq> []" by simp
    show "\<forall>v \<in> set (map (\<lambda>u. elems u ! b ! c ! h ! w) (t # rest)). P v"
    proof
      fix v assume "v \<in> set (map (\<lambda>u. elems u ! b ! c ! h ! w) (t # rest))"
      then obtain u where u: "u \<in> set (t # rest)" "v = elems u ! b ! c ! h ! w" by auto
      then have p: "wf u" "shape u = shape t" "all4 P (elems u)" using slices by auto
      then have "b < d0 u" "c < d1 u" "h < d2 u" "w < d3 u"
        using that by (simp_all add: shape_def)
      from nth4_all4 [OF p(1) p(3) this] show "P v" by (simp add: u(2))
    qed
  qed
  show ?thesis
    unfolding elems_torch_mean0 all4_tabulate using v by blast
qed

lemma all4_torch_mean0:
  assumes "\<forall>u \<in> set (t # rest). wf u \<and> shape u = shape t \<and> all4 in01 (elems u)"
  shows "all4 in01 (elems (torch_mean0 (t # rest)))"
proof (rule all4_torch_mean0_gen [where P = in01])
  show "\<And>vs. vs \<noteq> [] \<Longrightarrow> \<forall>v \<in> set vs. in01 v \<Longrightarrow> in01 (mean_vals vs)"
    by (rule mean_vals_in01)
  show "\<forall>u \<in> set (t # rest). wf u \<and> shape u = shape t \<and> all4 in01 (elems u)"
    by (rule assms)
qed

lemma is_fin_Fin: "is_fin v \<longleftrightarrow> (\<exists>r. v = Fin r)"
  by (cases v) (simp_all add: is_fin_def)

lemma foldl_fadd_fin:
  assumes "\<forall>v \<in> set vs. is_fin v"
  shows "\<exists>s'. foldl fadd (Fin s) vs = Fin s'"
  using assms
proof (induction vs arbitrary: s)
  case Nil
  then show ?case by simp
next
  case (Cons v vs)
  from Cons.prems have "is_fin v" by simp
  then obtain r where "v = Fin r" unfolding is_fin_Fin by blast
  moreover have "\<forall>v \<in> set vs. is_fin v" using Cons.prems by simp
  ultimately show ?case using Cons.IH [of "s + r"] by simp
qed

lemma mean_vals_fin:
  assumes "\<forall>v \<in> set vs. is_fin v"
  shows "is_fin (mean_vals vs)"
proof -
  obtain s where "foldl fadd (Fin 0) vs = Fin s"
    using foldl_fadd_fin [OF assms, of 0] by blast
  then show ?thesis by (simp add: mean_vals_def is_fin_def)
qed

lemma all4_is_fin: "all4 is_fin xs \<longleftrightarrow> \<not> ex4 isnan xs \<and> \<not> ex4 isinf xs"
  unfolding all4_iff ex4_iff is_fin_def by blast

lemma all4_fin_torch_mean0:
  assumes "\<forall>u \<in> set (t # rest). wf u \<and> shape u = shape t \<and> all4 is_fin (elems u)"
  shows "all4 is_fin (elems (torch_mean0 (t # rest)))"
proof (rule all4_torch_mean0_gen [where P = is_fin])
  show "\<And>vs. vs \<noteq> [] \<Longrightarrow> \<forall>v \<in> set vs. is_fin v \<Longrightarrow> is_fin (mean_vals vs)"
    by (rule mean_vals_fin)
  show "\<forall>u \<in> set (t # rest). wf u \<and> shape u = shape t \<and> all4 is_fin (elems u)"
    by (rule assms)
qed

lemma stacked_mean_finite:
  assumes "torch_stack result = Inr st" and "list_all wf st"
    and "\<not> any_isnan st" and "\<not> any_isinf st"
  shows "all4 is_fin (elems (torch_mean0 st))"
proof -
  note D = torch_stack_Inr_D [OF assms(1)]
  from D(2) obtain t rest where r: "result = t # rest" by (cases result) simp_all
  have tr: "st = t # rest" using D(1) r by simp
  have sh: "\<forall>u \<in> set (t # rest). shape u = shape t" using D(3) unfolding r by simp
  have "wf u \<and> shape u = shape t \<and> all4 is_fin (elems u)" if u: "u \<in> set (t # rest)" for u
  proof -
    have 1: "wf u" using u assms(2) unfolding tr list_all_iff by blast
    have 2: "shape u = shape t" using u sh by blast
    have "\<not> ex4 isnan (elems u)" using u assms(3) unfolding any_isnan_iff tr by blast
    moreover have "\<not> ex4 isinf (elems u)" using u assms(4) unfolding any_isinf_iff tr by blast
    ultimately have 3: "all4 is_fin (elems u)" unfolding all4_is_fin by simp
    show ?thesis using 1 2 3 by simp
  qed
  then have "\<forall>u \<in> set (t # rest). wf u \<and> shape u = shape t \<and> all4 is_fin (elems u)"
    by blast
  then show ?thesis unfolding tr by (rule all4_fin_torch_mean0)
qed

lemma estimate_augmented_cases:
  assumes "snd (augment_loop self pixel latent args []) = Inr result"
    and "torch_stack result = Inr st"
  shows "estimate_augmented self pixel latent =
     (if any_isnan st \<or> any_isinf st
      then (fst (augment_loop self pixel latent args [])
              @ [LogError ''estimate_augmented: stacked tensor contains NaN or inf values''],
            Inl (ValueError ''Stacked tensor contains NaN or inf values''))
      else (fst (augment_loop self pixel latent args []), Inr (torch_mean0 st)))"
  using assms by (simp add: estimate_augmented_def case_prod_beta)

lemma decode_pixel_cases:
  assumes "shape pixel ! 1 = 3"
  shows "decode_pixel self pixel latent =
     (let moved = [ToDevice (load_device self) (self_dtype self),
                   ToDevice (load_device self) (self_dtype self)];
          run = estimate_augmented self
                  (tensor_to (load_device self) (self_dtype self) pixel)
                  (tensor_to (load_device self) (self_dtype self) latent)
      in case snd run of
           Inl e \<Rightarrow> (moved @ fst run, Inl e)
         | Inr y \<Rightarrow>
             if d1 y \<noteq> 4
             then (moved @ fst run, Inl (AssertionError ''Expected y.shape[1] == 4''))
             else (moved @ fst run @ [ToDevice (device pixel) (dtype pixel)],
                   Inr (tensor_to (device pixel) (dtype pixel) (clip 0 1 y))))"
  using assms
  by (simp add: decode_pixel_def Let_def case_prod_beta shape_def clip_sel split: sum.splits)

lemma const_output_props:
  "wf (const_output v x)"
  "shape (const_output v x) = [d0 x, 4, d2 x, d3 x]"
  "\<not> ex4 isnan (elems (const_output (Fin r) x))"
  by (auto simp add: const_output_def wf_iff mat_ok_def list_all_iff shape_def ex4_iff)

section \<open>The check for NaN and infinite values\<close>

text \<open>
  C3. Let the pixel tensor have 3 channels, let the eight forward passes succeed and let their
  restored outputs stack to \<open>st\<close>. If any value of \<open>st\<close> is NaN or infinite, then
  \<open>estimate_augmented\<close> and \<open>decode_pixel\<close> fail with the \<open>ValueError\<close> of the check, raised
  before the mean is taken, and the last effect is the line of the error log. If no value of
  \<open>st\<close> is NaN or infinite, the check does not fail: \<open>estimate_augmented\<close> returns the mean
  of \<open>st\<close>, and \<open>decode_pixel\<close> does not fail with a \<open>ValueError\<close>. Whenever \<open>decode_pixel\<close>
  returns a tensor (the slices of \<open>st\<close> being well-formed tensors), none of its values is NaN
  or infinite.
\<close>

theorem nan_inf_guard:
  assumes ch: "shape pixel ! 1 = 3"
    and loop: "snd (augment_loop self (tensor_to (load_device self) (self_dtype self) pixel)
                      (tensor_to (load_device self) (self_dtype self) latent) args []) = Inr result"
    and stack: "torch_stack result = Inr st"
  shows "(any_isnan st \<or> any_isinf st \<longrightarrow>
            snd (estimate_augmented self (tensor_to (load_device self) (self_dtype self) pixel)
                   (tensor_to (load_device self) (self_dtype self) latent))
              = Inl (ValueError ''Stacked tensor contains NaN or inf values'')
          \<and> snd (decode_pixel self pixel latent)
              = Inl (ValueError ''Stacked tensor contains NaN or inf values'')
          \<and> last (fst (decode_pixel self pixel latent))
              = LogError ''estimate_augmented: stacked tensor contains NaN or inf values'')
       \<and> (\<not> any_isnan st \<and> \<not> any_isinf st \<longrightarrow>
            snd (estimate_augmented self (tensor_to (load_device self) (self_dtype self) pixel)
                   (tensor_to (load_device self) (self_dtype self) latent))
              = Inr (torch_mean0 st)
          \<and> (\<forall>m. snd (decode_pixel self pixel latent) \<noteq> Inl (ValueError m)))
       \<and> (list_all wf st \<longrightarrow>
            (\<forall>y. snd (decode_pixel self pixel latent) = Inr y \<longrightarrow>
                 \<not> ex4 isnan (elems y) \<and> \<not> ex4 isinf (elems y)))"
proof -
  let ?P = "tensor_to (load_device self) (self_dtype self) pixel"
  let ?L = "tensor_to (load_device self) (self_dtype self) latent"
  note ea = estimate_augmented_cases [OF loop stack]
  note dp = decode_pixel_cases [OF ch, of self latent]
  have bad: "snd (estimate_augmented self ?P ?L)
              = Inl (ValueError ''Stacked tensor contains NaN or inf values'')
          \<and> snd (decode_pixel self pixel latent)
              = Inl (ValueError ''Stacked tensor contains NaN or inf values'')
          \<and> last (fst (decode_pixel self pixel latent))
              = LogError ''estimate_augmented: stacked tensor contains NaN or inf values''"
    if "any_isnan st \<or> any_isinf st"
    using that by (simp add: dp ea Let_def)
  have good: "snd (estimate_augmented self ?P ?L) = Inr (torch_mean0 st)
          \<and> (\<forall>m. snd (decode_pixel self pixel latent) \<noteq> Inl (ValueError m))"
    if "\<not> any_isnan st \<and> \<not> any_isinf st"
    using that by (simp add: dp ea Let_def)
  have clean: "\<not> ex4 isnan (elems y) \<and> \<not> ex4 isinf (elems y)"
    if w: "list_all wf st" and y: "snd (decode_pixel self pixel latent) = Inr y" for y
  proof -
    have n: "\<not> any_isnan st \<and> \<not> any_isinf st"
      using bad y by auto
    then have yv: "y = tensor_to (device pixel) (dtype pixel) (clip 0 1 (torch_mean0 st))"
      using y by (simp add: dp ea Let_def split: if_splits)
    have "all4 is_fin (elems (torch_mean0 st))"
      using stacked_mean_finite [OF stack w] n by simp
    then have "\<not> ex4 isnan (elems (torch_mean0 st))"
      by (auto simp add: all4_iff ex4_iff is_fin_def)
    then have "all4 in01 (elems (clip 0 1 (torch_mean0 st)))" by (rule all4_clip)
    then have "all4 in01 (elems y)" by (simp add: yv to_sel)
    then show ?thesis using in01_finite by (auto simp add: all4_iff ex4_iff)
  qed
  show ?thesis using bad good clean by blast
qed

theorem nan_inf_guard_witness:
  "shape pixel12 ! 1 = 3
   \<and> snd (augment_loop (const_decoder NaN)
            (tensor_to (load_device (const_decoder NaN)) (self_dtype (const_decoder NaN)) pixel12)
            (tensor_to (load_device (const_decoder NaN)) (self_dtype (const_decoder NaN)) latent11)
            args [])
       = Inr (replicate 8 (const_output NaN (tensor_to ''cuda'' Float16 pixel12)))
   \<and> torch_stack (replicate 8 (const_output NaN (tensor_to ''cuda'' Float16 pixel12)))
       = Inr (replicate 8 (const_output NaN (tensor_to ''cuda'' Float16 pixel12)))
   \<and> any_isnan (replicate 8 (const_output NaN (tensor_to ''cuda'' Float16 pixel12)))
   \<and> snd (decode_pixel (const_decoder NaN) pixel12 latent11)
       = Inl (ValueError ''Stacked tensor contains NaN or inf values'')
   \<and> last (fst (decode_pixel (const_decoder NaN) pixel12 latent11))
       = LogError ''estimate_augmented: stacked tensor contains NaN or inf values''"
proof -
  let ?D = "const_decoder NaN"
  let ?R = "replicate 8 (const_output NaN (tensor_to ''cuda'' Float16 pixel12))"
  have h1: "shape pixel12 ! 1 = 3" by (simp add: shape_def pixel12_def)
  have h2: "snd (augment_loop ?D (tensor_to (load_device ?D) (self_dtype ?D) pixel12)
                   (tensor_to (load_device ?D) (self_dtype ?D) latent11) args []) = Inr ?R"
    by code_simp
  have h3: "torch_stack ?R = Inr ?R" by code_simp
  have n: "any_isnan ?R" by code_simp
  show ?thesis
    using h1 h2 h3 n nan_inf_guard [OF h1 h2 h3] by blast
qed

section \<open>The ensemble and its mean\<close>







section \<open>The postcondition of decode_pixel\<close>

text \<open>
  C1. Let the pixel tensor have 3 channels, and let the network, on each of the eight
  augmented inputs, return a well-formed tensor with the batch size of the pixel tensor, 4
  channels and the spatial sizes of the augmented pixel tensor it was fed, free of NaN. Then
  \<open>decode_pixel\<close> returns a tensor whose dimension 1 is 4, whose batch and spatial sizes are
  those of the pixel input, whose values all lie in \<open>[0, 1]\<close>, and which carries the device
  and the dtype of the pixel input.
\<close>

theorem decode_pixel_postcondition:
  assumes ch: "shape pixel ! 1 = 3"
    and net: "\<forall>a \<in> set args. \<exists>out.
        model self (augment a (tensor_to (load_device self) (self_dtype self) pixel))
                   (augment a (tensor_to (load_device self) (self_dtype self) latent)) = Inr out
        \<and> wf out
        \<and> shape out = [d0 pixel, 4,
                        d2 (augment a (tensor_to (load_device self) (self_dtype self) pixel)),
                        d3 (augment a (tensor_to (load_device self) (self_dtype self) pixel))]
        \<and> \<not> ex4 isnan (elems out)"
  shows "\<exists>y. snd (decode_pixel self pixel latent) = Inr y
           \<and> wf y
           \<and> shape y = [d0 pixel, 4, d2 pixel, d3 pixel]
           \<and> all4 in01 (elems y)
           \<and> device y = device pixel
           \<and> dtype y = dtype pixel"
proof -
  let ?P = "tensor_to (load_device self) (self_dtype self) pixel"
  let ?L = "tensor_to (load_device self) (self_dtype self) latent"
  let ?f = "\<lambda>a. restore a (projr (model self (augment a ?P) (augment a ?L)))"
  let ?R = "map ?f args"
  have ok: "\<forall>a \<in> set args. \<exists>out. model self (augment a ?P) (augment a ?L) = Inr out"
    using net by blast
  have slice: "wf (?f a) \<and> shape (?f a) = [d0 pixel, 4, d2 pixel, d3 pixel]
               \<and> all4 in01 (elems (?f a))" if a: "a \<in> set args" for a
  proof -
    obtain out where out: "model self (augment a ?P) (augment a ?L) = Inr out" "wf out"
        "shape out = [d0 pixel, 4, d2 (augment a ?P), d3 (augment a ?P)]"
        "\<not> ex4 isnan (elems out)"
      using net a by blast
    have d: "d0 out = d0 pixel" "d1 out = 4" "d2 out = d2 (augment a ?P)"
        "d3 out = d3 (augment a ?P)"
      using out(3) by (simp_all add: shape_def)
    note rp = restore_props [OF out(2) d(3,4)]
    have "shape (restore a out) = [d0 pixel, 4, d2 pixel, d3 pixel]"
      by (simp add: shape_def rp(2,3,4,5) d(1,2) to_sel)
    then show ?thesis using rp(1) rp(8) [OF out(4)] by (simp add: out(1))
  qed
  have loop: "snd (augment_loop self ?P ?L args []) = Inr ?R"
    using augment_loop_success [OF ok, of "[]"] by simp
  have ne: "?R \<noteq> []" by (simp add: args_def)
  have "\<forall>u \<in> set ?R. shape u = [d0 pixel, 4, d2 pixel, d3 pixel]"
    using slice by auto
  with ne have stack: "torch_stack ?R = Inr ?R" by (rule torch_stack_same_shape)
  have fin: "\<not> any_isnan ?R \<and> \<not> any_isinf ?R"
  proof -
    have "\<not> ex4 isnan (elems u) \<and> \<not> ex4 isinf (elems u)" if "u \<in> set ?R" for u
    proof -
      have "all4 in01 (elems u)" using that slice by auto
      then show ?thesis using in01_finite unfolding all4_iff ex4_iff by blast
    qed
    then show ?thesis unfolding any_isnan_iff any_isinf_iff by blast
  qed
  have ea: "snd (estimate_augmented self ?P ?L) = Inr (torch_mean0 ?R)"
    using estimate_augmented_cases [OF loop stack] fin by simp
  obtain t rest where tr: "?R = t # rest" using ne by (cases ?R) simp_all
  have t: "t \<in> set ?R" unfolding tr by simp
  have st: "shape t = [d0 pixel, 4, d2 pixel, d3 pixel]" using t slice by auto
  have all: "\<forall>u \<in> set (t # rest). wf u \<and> shape u = shape t \<and> all4 in01 (elems u)"
    unfolding tr [symmetric] st using slice by auto
  let ?m = "torch_mean0 (t # rest)"
  have m1: "wf ?m" by (rule wf_torch_mean0)
  have m2: "shape ?m = [d0 pixel, 4, d2 pixel, d3 pixel]"
    using st by (simp add: shape_def del: torch_mean0.simps add: torch_mean0_sel)
  have m3: "all4 in01 (elems ?m)" using all by (rule all4_torch_mean0)
  then have m4: "\<not> ex4 isnan (elems ?m)" using in01_finite unfolding all4_iff ex4_iff by blast
  let ?y = "tensor_to (device pixel) (dtype pixel) (clip 0 1 ?m)"
  have d1m: "d1 ?m = 4" using m2 by (simp add: shape_def del: torch_mean0.simps)
  have res: "snd (decode_pixel self pixel latent) = Inr ?y"
    using ea d1m unfolding tr
    by (simp add: decode_pixel_cases [OF ch] Let_def del: torch_mean0.simps)
  have y1: "wf ?y" using m1 by (simp add: wf_tensor_to wf_clip)
  have y2: "shape ?y = [d0 pixel, 4, d2 pixel, d3 pixel]"
    using m2 by (simp add: shape_def to_sel clip_sel del: torch_mean0.simps)
  have y3: "all4 in01 (elems ?y)"
    using all4_clip [OF m4] by (simp add: to_sel del: torch_mean0.simps)
  have y4: "device ?y = device pixel" "dtype ?y = dtype pixel" by (simp_all add: to_sel)
  show ?thesis using res y1 y2 y3 y4 by blast
qed

theorem decode_pixel_postcondition_witness:
  "shape pixel12 ! 1 = 3
   \<and> snd (decode_pixel (const_decoder (Fin 2)) pixel12 latent11)
       = Inr \<lparr>d0 = 1, d1 = 4, d2 = 1, d3 = 2,
              elems = [[[[Fin 1, Fin 1]], [[Fin 1, Fin 1]], [[Fin 1, Fin 1]], [[Fin 1, Fin 1]]]],
              device = ''cpu'', dtype = Float32\<rparr>
   \<and> (\<exists>y. snd (decode_pixel (const_decoder (Fin 2)) pixel12 latent11) = Inr y
           \<and> wf y
           \<and> shape y = [d0 pixel12, 4, d2 pixel12, d3 pixel12]
           \<and> all4 in01 (elems y)
           \<and> device y = device pixel12
           \<and> dtype y = dtype pixel12)"
proof -
  let ?D = "const_decoder (Fin 2)"
  have h1: "shape pixel12 ! 1 = 3" by (simp add: shape_def pixel12_def)
  have h2: "\<forall>a \<in> set args. \<exists>out.
        model ?D (augment a (tensor_to (load_device ?D) (self_dtype ?D) pixel12))
                 (augment a (tensor_to (load_device ?D) (self_dtype ?D) latent11)) = Inr out
        \<and> wf out
        \<and> shape out = [d0 pixel12, 4,
             d2 (augment a (tensor_to (load_device ?D) (self_dtype ?D) pixel12)),
             d3 (augment a (tensor_to (load_device ?D) (self_dtype ?D) pixel12))]
        \<and> \<not> ex4 isnan (elems out)"
  proof
    fix a assume "a \<in> set args"
    have "model ?D (augment a (tensor_to (load_device ?D) (self_dtype ?D) pixel12))
                 (augment a (tensor_to (load_device ?D) (self_dtype ?D) latent11))
          = Inr (const_output (Fin 2)
                   (augment a (tensor_to (load_device ?D) (self_dtype ?D) pixel12)))"
      by (simp add: const_decoder_def)
    then show "\<exists>out.
        model ?D (augment a (tensor_to (load_device ?D) (self_dtype ?D) pixel12))
                 (augment a (tensor_to (load_device ?D) (self_dtype ?D) latent11)) = Inr out
        \<and> wf out
        \<and> shape out = [d0 pixel12, 4,
             d2 (augment a (tensor_to (load_device ?D) (self_dtype ?D) pixel12)),
             d3 (augment a (tensor_to (load_device ?D) (self_dtype ?D) pixel12))]
        \<and> \<not> ex4 isnan (elems out)"
      using const_output_props by (simp add: augment_sel(1) to_sel)
  qed
  have v: "snd (decode_pixel ?D pixel12 latent11)
       = Inr \<lparr>d0 = 1, d1 = 4, d2 = 1, d3 = 2,
              elems = [[[[Fin 1, Fin 1]], [[Fin 1, Fin 1]], [[Fin 1, Fin 1]], [[Fin 1, Fin 1]]]],
              device = ''cpu'', dtype = Float32\<rparr>"
    by code_simp
  show ?thesis
    using h1 h2 v decode_pixel_postcondition [OF h1 h2] by blast
qed

section \<open>The composite against the checkerboard\<close>



















end
